theory Spec2Isabelle
  imports Main "HOL-Library.AList"
begin

section \<open>Python primitives used by the scripts\<close>

datatype py_error = ValueError | OverflowError | TypeError | ApiError

definition py_isspace :: "char \<Rightarrow> bool" where
  "py_isspace c = (of_char c \<in> {9, 10, 11, 12, 13, 28, 29, 30, 31, 32, 133, 160 :: nat})"

definition ascii_digit :: "char \<Rightarrow> bool" where
  "ascii_digit c = (48 \<le> (of_char c :: nat) \<and> (of_char c :: nat) \<le> 57)"

definition py_isdigit_char :: "char \<Rightarrow> bool" where
  "py_isdigit_char c = (ascii_digit c \<or> of_char c \<in> {178, 179, 185 :: nat})"

definition py_isdigit :: "string \<Rightarrow> bool" where
  "py_isdigit s = (s \<noteq> [] \<and> list_all py_isdigit_char s)"

definition lstrip :: "string \<Rightarrow> string" where
  "lstrip s = dropWhile py_isspace s"

definition strip :: "string \<Rightarrow> string" where
  "strip s = rev (dropWhile py_isspace (rev (dropWhile py_isspace s)))"

definition lower_char :: "char \<Rightarrow> char" where
  "lower_char c =
     (let n = (of_char c :: nat)
      in if (65 \<le> n \<and> n \<le> 90) \<or> (192 \<le> n \<and> n \<le> 222 \<and> n \<noteq> 215)
         then char_of (n + 32) else c)"

definition lower :: "string \<Rightarrow> string" where
  "lower s = map lower_char s"

definition digit_val :: "char \<Rightarrow> nat" where
  "digit_val c = of_char c - 48"

fun digits_val :: "nat \<Rightarrow> string \<Rightarrow> nat" where
  "digits_val acc [] = acc"
| "digits_val acc (c # cs) = digits_val (10 * acc + digit_val c) cs"


subsection \<open>The interpreter settings the scripts depend on\<close>

text \<open>
  Two behaviours of the standard library are not fixed by the scripts themselves:
  \<^item> \<open>int_max_str_digits\<close>: the limit on the length of a decimal string that \<open>int()\<close>
    converts (\<open>sys.get_int_max_str_digits()\<close>: 4300 by default since CPython 3.11,
    0 when there is no limit, as in older interpreters);
  \<^item> \<open>strftime_pads_year\<close>: whether \<open>strftime('%Y')\<close> zero-fills years below 1000 to
    four digits (the C library decides; glibc does not).
\<close>

record interp =
  int_max_str_digits :: nat
  strftime_pads_year :: bool

definition cpython311_glibc :: interp where
  "cpython311_glibc = \<lparr>int_max_str_digits = 4300, strftime_pads_year = False\<rparr>"

text \<open>
  \<open>int(s)\<close> for a string on which \<open>s.isdigit()\<close> holds (the only place the scripts call
  it): such a string has no sign, blank or underscore, so the conversion succeeds exactly
  when every character is a decimal digit and the length is within the limit.
\<close>

definition py_int :: "interp \<Rightarrow> string \<Rightarrow> py_error + int" where
  "py_int env s =
     (if s = [] \<or> \<not> list_all ascii_digit s then Inl ValueError
      else if 0 < int_max_str_digits env \<and> int_max_str_digits env < length s then Inl ValueError
      else Inr (int (digits_val 0 s)))"

section \<open>The \<open>datetime\<close> module\<close>

record datetime =
  year :: int
  month :: int
  day :: int
  hour :: int
  minute :: int
  second :: int

definition MINYEAR :: int where "MINYEAR = 1"
definition MAXYEAR :: int where "MAXYEAR = 9999"
definition MAXORDINAL :: int where "MAXORDINAL = 3652059"

definition DAYS_IN_MONTH :: "int list" where
  "DAYS_IN_MONTH = [-1, 31, 28, 31, 30, 31, 30, 31, 31, 30, 31, 30, 31]"

definition DAYS_BEFORE_MONTH :: "int list" where
  "DAYS_BEFORE_MONTH = [-1, 0, 31, 59, 90, 120, 151, 181, 212, 243, 273, 304, 334]"

definition is_leap :: "int \<Rightarrow> bool" where
  "is_leap y = (y mod 4 = 0 \<and> (y mod 100 \<noteq> 0 \<or> y mod 400 = 0))"

definition days_before_year :: "int \<Rightarrow> int" where
  "days_before_year yr = (let y = yr - 1 in y * 365 + y div 4 - y div 100 + y div 400)"

definition days_in_month :: "int \<Rightarrow> int \<Rightarrow> int" where
  "days_in_month y m = (if m = 2 \<and> is_leap y then 29 else DAYS_IN_MONTH ! nat m)"

definition days_before_month :: "int \<Rightarrow> int \<Rightarrow> int" where
  "days_before_month y m = DAYS_BEFORE_MONTH ! nat m + (if m > 2 \<and> is_leap y then 1 else 0)"

definition ymd2ord :: "int \<Rightarrow> int \<Rightarrow> int \<Rightarrow> int" where
  "ymd2ord y m d = days_before_year y + days_before_month y m + d"

definition DI400Y :: int where "DI400Y = 146097"
definition DI100Y :: int where "DI100Y = 36524"
definition DI4Y :: int where "DI4Y = 1461"

text \<open>
  The last step of \<open>_ord2ymd\<close>: month and day from the offset \<open>n\<close> within the year. The
  estimate \<open>(n + 50) >> 5\<close> is exact or one too large.
\<close>

definition month_day :: "bool \<Rightarrow> int \<Rightarrow> int \<times> int" where
  "month_day leapyear n =
     (let mo = (n + 50) div 32;
          preceding = DAYS_BEFORE_MONTH ! nat mo + (if mo > 2 \<and> leapyear then 1 else 0)
      in if preceding > n
         then let mo = mo - 1;
                  preceding = preceding
                     - (DAYS_IN_MONTH ! nat mo + (if mo = 2 \<and> leapyear then 1 else 0))
              in (mo, n - preceding + 1)
         else (mo, n - preceding + 1))"

definition ord2ymd :: "int \<Rightarrow> int \<times> int \<times> int" where
  "ord2ymd n0 =
     (let n = n0 - 1;
          n400 = n div DI400Y; n = n mod DI400Y;
          yr = n400 * 400 + 1;
          n100 = n div DI100Y; n = n mod DI100Y;
          n4 = n div DI4Y; n = n mod DI4Y;
          n1 = n div 365; n = n mod 365;
          yr = yr + (n100 * 100 + n4 * 4 + n1)
      in if n1 = 4 \<or> n100 = 4 then (yr - 1, 12, 31)
         else (case month_day (n1 = 3 \<and> (n4 \<noteq> 24 \<or> n100 = 3)) n of (mo, d) \<Rightarrow> (yr, mo, d)))"

text \<open>The checks of the \<open>datetime(...)\<close> constructor: a field out of range is a ValueError.\<close>

definition check_date_fields :: "int \<Rightarrow> int \<Rightarrow> int \<Rightarrow> bool" where
  "check_date_fields y m d =
     (MINYEAR \<le> y \<and> y \<le> MAXYEAR \<and> 1 \<le> m \<and> m \<le> 12 \<and> 1 \<le> d \<and> d \<le> days_in_month y m)"

definition check_time_fields :: "int \<Rightarrow> int \<Rightarrow> int \<Rightarrow> bool" where
  "check_time_fields h mi s = (0 \<le> h \<and> h \<le> 23 \<and> 0 \<le> mi \<and> mi \<le> 59 \<and> 0 \<le> s \<and> s \<le> 59)"

definition mk_datetime :: "int \<Rightarrow> int \<Rightarrow> int \<Rightarrow> int \<Rightarrow> int \<Rightarrow> int \<Rightarrow> py_error + datetime" where
  "mk_datetime y m d h mi s =
     (if check_date_fields y m d \<and> check_time_fields h mi s
      then Inr \<lparr>year = y, month = m, day = d, hour = h, minute = mi, second = s\<rparr>
      else Inl ValueError)"

definition valid_datetime :: "datetime \<Rightarrow> bool" where
  "valid_datetime dt =
     (check_date_fields (year dt) (month dt) (day dt)
      \<and> check_time_fields (hour dt) (minute dt) (second dt))"

definition toordinal :: "datetime \<Rightarrow> int" where
  "toordinal dt = ymd2ord (year dt) (month dt) (day dt)"

text \<open>
  \<open>timedelta(days=n)\<close> and \<open>timedelta(weeks=w)\<close>: a whole number of days, of magnitude at
  most 999999999, else OverflowError.
\<close>

definition timedelta_days :: "int \<Rightarrow> py_error + int" where
  "timedelta_days n = (if \<bar>n\<bar> \<le> 999999999 then Inr n else Inl OverflowError)"

definition timedelta_weeks :: "int \<Rightarrow> py_error + int" where
  "timedelta_weeks w = timedelta_days (7 * w)"

text \<open>
  \<open>dt + delta\<close> for a delta of whole days: the time of day is kept, the date moves by
  ordinal; a result outside 0001-01-01 .. 9999-12-31 is an OverflowError.
\<close>

definition datetime_add :: "datetime \<Rightarrow> int \<Rightarrow> py_error + datetime" where
  "datetime_add dt delta =
     (let days = toordinal dt + delta
      in if 0 < days \<and> days \<le> MAXORDINAL
         then (case ord2ymd days of (y, m, d) \<Rightarrow> Inr (dt\<lparr>year := y, month := m, day := d\<rparr>))
         else Inl OverflowError)"

definition datetime_sub :: "datetime \<Rightarrow> int \<Rightarrow> py_error + datetime" where
  "datetime_sub dt delta = datetime_add dt (- delta)"

subsection \<open>\<open>strftime('%Y-%m-%d')\<close>\<close>

definition digit_char :: "nat \<Rightarrow> char" where
  "digit_char d = char_of (48 + d mod 10)"

fun str_nat_aux :: "nat \<Rightarrow> nat \<Rightarrow> string \<Rightarrow> string" where
  "str_nat_aux 0 n acc = acc"
| "str_nat_aux (Suc fuel) n acc =
     (if n < 10 then digit_char n # acc
      else str_nat_aux fuel (n div 10) (digit_char (n mod 10) # acc))"

definition str_nat :: "nat \<Rightarrow> string" where
  "str_nat n = str_nat_aux (Suc n) n []"

definition pad2 :: "nat \<Rightarrow> string" where
  "pad2 n = [digit_char (n div 10), digit_char n]"

definition pad4 :: "nat \<Rightarrow> string" where
  "pad4 n = [digit_char (n div 1000), digit_char (n div 100), digit_char (n div 10), digit_char n]"

definition strftime_Y :: "interp \<Rightarrow> int \<Rightarrow> string" where
  "strftime_Y env y = (if strftime_pads_year env \<or> 1000 \<le> y then pad4 (nat y) else str_nat (nat y))"

definition strftime_ymd :: "interp \<Rightarrow> datetime \<Rightarrow> string" where
  "strftime_ymd env dt =
     strftime_Y env (year dt) @ ''-'' @ pad2 (nat (month dt)) @ ''-'' @ pad2 (nat (day dt))"


section \<open>\<open>datetime.strptime\<close>\<close>

text \<open>
  \<open>strptime\<close> turns the format into a regular expression, matches it at the start of the
  data with the backtracking matcher of \<open>re\<close>, and rejects a match that does not reach the
  end of the data. Only the six directives that occur in the scripts' formats are
  modelled; the literal characters of those formats (\<open>-\<close>, \<open>/\<close>, \<open>:\<close>) have no case
  variants, so the IGNORECASE flag has no effect on them.
\<close>

datatype re_item = DirY | Dirm | Dird | DirH | DirM | DirS | Lit char | Spaces

definition directive :: "char \<Rightarrow> re_item option" where
  "directive c =
     (if c = CHR ''Y'' then Some DirY
      else if c = CHR ''m'' then Some Dirm
      else if c = CHR ''d'' then Some Dird
      else if c = CHR ''H'' then Some DirH
      else if c = CHR ''M'' then Some DirM
      else if c = CHR ''S'' then Some DirS
      else None)"

text \<open>
  \<open>TimeRE.pattern\<close>: a run of blanks in the format becomes \<open>\s+\<close>, \<open>%x\<close> becomes the
  expression of directive \<open>x\<close>, any other character stands for itself. \<open>None\<close> is the
  ValueError for a stray \<open>%\<close> or an unknown directive.
\<close>

function pattern :: "string \<Rightarrow> re_item list option" where
  "pattern [] = Some []"
| "pattern (c # cs) =
     (if c = CHR ''%'' then
        (case cs of
           [] \<Rightarrow> None
         | d # ds \<Rightarrow> (case directive d of
                       None \<Rightarrow> None
                     | Some it \<Rightarrow> map_option ((#) it) (pattern ds)))
      else if py_isspace c then map_option ((#) Spaces) (pattern (dropWhile py_isspace cs))
      else map_option ((#) (Lit c)) (pattern cs))"
  by pat_completeness auto
termination
  by (relation "measure length") (auto simp: length_dropWhile_le less_Suc_eq_le)

declare pattern.simps [simp del]

definition chr_in :: "char \<Rightarrow> char \<Rightarrow> char \<Rightarrow> bool" where
  "chr_in lo hi c = ((of_char lo :: nat) \<le> of_char c \<and> (of_char c :: nat) \<le> of_char hi)"

text \<open>One alternative of a directive: two characters, or one, each from a class.\<close>

fun alt2 :: "(char \<Rightarrow> bool) \<Rightarrow> (char \<Rightarrow> bool) \<Rightarrow> string \<Rightarrow> (string \<times> string) list" where
  "alt2 P Q (a # b # r) = (if P a \<and> Q b then [([a, b], r)] else [])"
| "alt2 P Q [a] = []"
| "alt2 P Q [] = []"

fun alt1 :: "(char \<Rightarrow> bool) \<Rightarrow> string \<Rightarrow> (string \<times> string) list" where
  "alt1 P (a # r) = (if P a then [([a], r)] else [])"
| "alt1 P [] = []"

text \<open>\<open>\s+\<close> is greedy: the longest run of blanks first, then each shorter one.\<close>

definition spaces_match :: "string \<Rightarrow> (string \<times> string) list" where
  "spaces_match s =
     map (\<lambda>k. (take k s, drop k s)) (rev [1 ..< Suc (length (takeWhile py_isspace s))])"

text \<open>
  The ways one item matches at the start of \<open>s\<close>, as (matched text, rest), in the order
  the matcher tries them:
  \<^item> \<open>%Y\<close>: \<open>\d\d\d\d\<close>
  \<^item> \<open>%m\<close>: \<open>1[0-2]|0[1-9]|[1-9]\<close>
  \<^item> \<open>%d\<close>: \<open>3[0-1]|[1-2]\d|0[1-9]|[1-9]| [1-9]\<close>
  \<^item> \<open>%H\<close>: \<open>2[0-3]|[0-1]\d|\d\<close>
  \<^item> \<open>%M\<close>: \<open>[0-5]\d|\d\<close>
  \<^item> \<open>%S\<close>: \<open>6[0-1]|[0-5]\d|\d\<close>
\<close>

fun item_match :: "re_item \<Rightarrow> string \<Rightarrow> (string \<times> string) list" where
  "item_match DirY s =
     (case s of
        a # b # c # d # r \<Rightarrow>
          if ascii_digit a \<and> ascii_digit b \<and> ascii_digit c \<and> ascii_digit d
          then [([a, b, c, d], r)] else []
      | _ \<Rightarrow> [])"
| "item_match Dirm s =
     alt2 (\<lambda>c. c = CHR ''1'') (chr_in CHR ''0'' CHR ''2'') s
     @ alt2 (\<lambda>c. c = CHR ''0'') (chr_in CHR ''1'' CHR ''9'') s
     @ alt1 (chr_in CHR ''1'' CHR ''9'') s"
| "item_match Dird s =
     alt2 (\<lambda>c. c = CHR ''3'') (chr_in CHR ''0'' CHR ''1'') s
     @ alt2 (chr_in CHR ''1'' CHR ''2'') ascii_digit s
     @ alt2 (\<lambda>c. c = CHR ''0'') (chr_in CHR ''1'' CHR ''9'') s
     @ alt1 (chr_in CHR ''1'' CHR ''9'') s
     @ alt2 (\<lambda>c. c = CHR '' '') (chr_in CHR ''1'' CHR ''9'') s"
| "item_match DirH s =
     alt2 (\<lambda>c. c = CHR ''2'') (chr_in CHR ''0'' CHR ''3'') s
     @ alt2 (chr_in CHR ''0'' CHR ''1'') ascii_digit s
     @ alt1 ascii_digit s"
| "item_match DirM s =
     alt2 (chr_in CHR ''0'' CHR ''5'') ascii_digit s
     @ alt1 ascii_digit s"
| "item_match DirS s =
     alt2 (\<lambda>c. c = CHR ''6'') (chr_in CHR ''0'' CHR ''1'') s
     @ alt2 (chr_in CHR ''0'' CHR ''5'') ascii_digit s
     @ alt1 ascii_digit s"
| "item_match (Lit c) s = alt1 (\<lambda>x. x = c) s"
| "item_match Spaces s = spaces_match s"

text \<open>
  All matches of the whole expression at the start of \<open>s\<close>, as (groups, rest), in
  backtracking order; \<open>re.match\<close> returns the first.
\<close>

fun re_match :: "re_item list \<Rightarrow> string \<Rightarrow> ((re_item \<times> string) list \<times> string) list" where
  "re_match [] s = [([], s)]"
| "re_match (it # its) s =
     concat (map (\<lambda>(txt, r). map (\<lambda>(found, rest). ((it, txt) # found, rest)) (re_match its r))
                 (item_match it s))"

text \<open>\<open>int(found_dict[key])\<close>, with the default of \<open>_strptime\<close> when the format has no such group.\<close>

definition group_int :: "(re_item \<times> string) list \<Rightarrow> re_item \<Rightarrow> int \<Rightarrow> int" where
  "group_int found key dflt =
     (case map_of found key of None \<Rightarrow> dflt | Some txt \<Rightarrow> int (digits_val 0 (strip txt)))"

definition strptime :: "string \<Rightarrow> string \<Rightarrow> py_error + datetime" where
  "strptime data_string fmt =
     (case pattern fmt of
        None \<Rightarrow> Inl ValueError
      | Some format_regex \<Rightarrow>
          (case re_match format_regex data_string of
             [] \<Rightarrow> Inl ValueError
           | (found, rest) # _ \<Rightarrow>
               if rest \<noteq> [] then Inl ValueError
               else mk_datetime (group_int found DirY 1900) (group_int found Dirm 1)
                      (group_int found Dird 1) (group_int found DirH 0)
                      (group_int found DirM 0) (group_int found DirS 0)))"

section \<open>The date helpers of the scripts\<close>

text \<open>Raising propagates: the rest of a block runs only on a value.\<close>

definition bind_err :: "py_error + 'a \<Rightarrow> ('a \<Rightarrow> py_error + 'b) \<Rightarrow> py_error + 'b" where
  "bind_err m f = (case m of Inl e \<Rightarrow> Inl e | Inr v \<Rightarrow> f v)"

text \<open>
  \<open>try: <body> except ValueError: pass\<close> followed by \<open>rest\<close>. The body either returns a
  value from the function (\<open>Inr (Some v)\<close>), falls through (\<open>Inr None\<close>) or raises; only a
  ValueError is caught.
\<close>

definition try_except_ValueError_pass ::
  "py_error + 'a option \<Rightarrow> py_error + 'a option \<Rightarrow> py_error + 'a option" where
  "try_except_ValueError_pass body rest =
     (case body of
        Inr (Some v) \<Rightarrow> Inr (Some v)
      | Inr None \<Rightarrow> rest
      | Inl e \<Rightarrow> if e = ValueError then rest else Inl e)"

text \<open>
  \<open>for fmt in date_formats: try: return datetime.strptime(s.strip(), fmt)
  except ValueError: continue\<close>; \<open>Inr None\<close> when the loop ends without a return.
\<close>

fun for_date_formats :: "string \<Rightarrow> string list \<Rightarrow> py_error + datetime option" where
  "for_date_formats launch_date_str [] = Inr None"
| "for_date_formats launch_date_str (fmt # fmts) =
     (case strptime (strip launch_date_str) fmt of
        Inr d \<Rightarrow> Inr (Some d)
      | Inl e \<Rightarrow> if e = ValueError then for_date_formats launch_date_str fmts else Inl e)"

text \<open>\<open>parse_launch_date\<close> of \<open>generate_monday_boards.py\<close> (the warning it prints is not part of its result).\<close>

definition parse_launch_date_gmb :: "interp \<Rightarrow> string \<Rightarrow> py_error + datetime option" where
  "parse_launch_date_gmb env launch_date_str =
     (if launch_date_str = [] \<or> strip launch_date_str = [] then Inr None
      else try_except_ValueError_pass
             (if py_isdigit launch_date_str then
                bind_err (py_int env launch_date_str) (\<lambda>excel_date.
                bind_err (mk_datetime 1899 12 30 0 0 0) (\<lambda>base_date.
                bind_err (timedelta_days excel_date) (\<lambda>delta.
                bind_err (datetime_add base_date delta) (\<lambda>d. Inr (Some d)))))
              else Inr None)
             (for_date_formats launch_date_str
                [''%Y-%m-%d'', ''%m/%d/%Y'', ''%d/%m/%Y'', ''%Y-%m-%d %H:%M:%S'']))"

text \<open>\<open>MondayBoardDuplicator.parse_launch_date\<close> of \<open>duplicate_master_to_proddev.py\<close>.\<close>

definition parse_launch_date_dup :: "interp \<Rightarrow> string \<Rightarrow> py_error + datetime option" where
  "parse_launch_date_dup env launch_date_str =
     (if launch_date_str = [] \<or> strip launch_date_str = [] then Inr None
      else try_except_ValueError_pass
             (if py_isdigit launch_date_str then
                bind_err (py_int env launch_date_str) (\<lambda>excel_date.
                bind_err (mk_datetime 1899 12 30 0 0 0) (\<lambda>base_date.
                bind_err (timedelta_days excel_date) (\<lambda>delta.
                bind_err (datetime_add base_date delta) (\<lambda>d. Inr (Some d)))))
              else Inr None)
             (for_date_formats launch_date_str [''%Y-%m-%d'', ''%m/%d/%Y'', ''%d/%m/%Y'']))"

text \<open>\<open>parse_launch_date\<close> of \<open>generate_product_dev.py\<close>.\<close>

definition parse_launch_date_gpd :: "interp \<Rightarrow> string \<Rightarrow> py_error + datetime option" where
  "parse_launch_date_gpd env launch_date_str =
     (if launch_date_str = [] \<or> strip launch_date_str = [] then Inr None
      else try_except_ValueError_pass
             (if py_isdigit launch_date_str then
                bind_err (py_int env launch_date_str) (\<lambda>excel_date.
                bind_err (mk_datetime 1899 12 30 0 0 0) (\<lambda>base_date.
                bind_err (timedelta_days excel_date) (\<lambda>delta.
                bind_err (datetime_add base_date delta) (\<lambda>d. Inr (Some d)))))
              else Inr None)
             (for_date_formats launch_date_str [''%Y-%m-%d'', ''%m/%d/%Y'', ''%d/%m/%Y'']))"

text \<open>\<open>parse_launch_date\<close> of \<open>scripts/add_subitems_to_monday.py\<close>.\<close>

definition parse_launch_date_add :: "interp \<Rightarrow> string \<Rightarrow> py_error + datetime option" where
  "parse_launch_date_add env launch_date_str =
     (if launch_date_str = [] \<or> strip launch_date_str = [] then Inr None
      else try_except_ValueError_pass
             (if py_isdigit launch_date_str then
                bind_err (py_int env launch_date_str) (\<lambda>excel_date.
                bind_err (mk_datetime 1899 12 30 0 0 0) (\<lambda>base_date.
                bind_err (timedelta_days excel_date) (\<lambda>delta.
                bind_err (datetime_add base_date delta) (\<lambda>d. Inr (Some d)))))
              else Inr None)
             (for_date_formats launch_date_str [''%Y-%m-%d'', ''%m/%d/%Y'', ''%d/%m/%Y'']))"

text \<open>\<open>MondaySubitemManager.parse_launch_date\<close> of \<open>scripts/monday_subitem_manager.py\<close>.\<close>

definition parse_launch_date_msm :: "interp \<Rightarrow> string \<Rightarrow> py_error + datetime option" where
  "parse_launch_date_msm env launch_date_str =
     (if launch_date_str = [] \<or> strip launch_date_str = [] then Inr None
      else try_except_ValueError_pass
             (if py_isdigit launch_date_str then
                bind_err (py_int env launch_date_str) (\<lambda>excel_date.
                bind_err (mk_datetime 1899 12 30 0 0 0) (\<lambda>base_date.
                bind_err (timedelta_days excel_date) (\<lambda>delta.
                bind_err (datetime_add base_date delta) (\<lambda>d. Inr (Some d)))))
              else Inr None)
             (for_date_formats launch_date_str
                [''%Y-%m-%d'', ''%m/%d/%Y'', ''%d/%m/%Y'', ''%Y-%m-%d %H:%M:%S'']))"

text \<open>
  \<open>calculate_due_date\<close>; the copies in the five scripts that return a string are the same
  text.
\<close>

definition calculate_due_date :: "interp \<Rightarrow> datetime option \<Rightarrow> int \<Rightarrow> py_error + string option" where
  "calculate_due_date env launch_date lead_time_weeks =
     (case launch_date of
        None \<Rightarrow> Inr None
      | Some ld \<Rightarrow>
          bind_err (timedelta_weeks lead_time_weeks) (\<lambda>delta.
          bind_err (datetime_sub ld delta) (\<lambda>due_date.
          Inr (Some (strftime_ymd env due_date)))))"

text \<open>
  The five copies have one shape and differ in the list of formats only; this is the
  shape, for the proofs.
\<close>

definition parse_with_formats :: "interp \<Rightarrow> string \<Rightarrow> string list \<Rightarrow> py_error + datetime option" where
  "parse_with_formats env launch_date_str date_formats =
     (if launch_date_str = [] \<or> strip launch_date_str = [] then Inr None
      else try_except_ValueError_pass
             (if py_isdigit launch_date_str then
                bind_err (py_int env launch_date_str) (\<lambda>excel_date.
                bind_err (mk_datetime 1899 12 30 0 0 0) (\<lambda>base_date.
                bind_err (timedelta_days excel_date) (\<lambda>delta.
                bind_err (datetime_add base_date delta) (\<lambda>d. Inr (Some d)))))
              else Inr None)
             (for_date_formats launch_date_str date_formats))"


section \<open>Substring tests\<close>

fun startswith :: "string \<Rightarrow> string \<Rightarrow> bool" where
  "startswith s [] = True"
| "startswith [] (p # ps) = False"
| "startswith (c # cs) (p # ps) = (c = p \<and> startswith cs ps)"

text \<open>\<open>sub in s\<close> for strings.\<close>

fun contains :: "string \<Rightarrow> string \<Rightarrow> bool" where
  "contains sub [] = (sub = [])"
| "contains sub (c # cs) = (startswith (c # cs) sub \<or> contains sub cs)"

section \<open>Duplicating the master board (\<open>duplicate_master_to_proddev.py\<close>)\<close>

text \<open>
  What the board service hands over: a board column (\<open>id\<close>, \<open>title\<close>), an item with its
  group title and its column values (\<open>id\<close>, \<open>text\<close>) in the board's column order, and an
  entry of \<open>sub_items\<close> in \<open>monday_config.json\<close>. A missing or null \<open>text\<close>, and a
  missing group title, are the empty string: the code tests them for truth only.
\<close>

record column =
  column_id :: string
  column_title :: string

record column_value =
  cv_id :: string
  cv_text :: string

record item =
  it_name :: string
  it_group_title :: string
  it_column_values :: "column_value list"

record sub_item =
  task_name :: string
  lead_time_weeks :: int
  description :: "string option"

text \<open>
  The calls that create something on a board. The service is outside the scripts: its
  answer to a call, given the calls made before, is an item (\<open>id\<close>, \<open>name\<close>) or an
  exception.
\<close>

datatype api_call =
    CreateItem string string string "(string \<times> string) list"
  | CreateSubitem string string "(string \<times> string) list"
  | ClientCreateItem string string "(string \<times> string) list"

record created =
  new_id :: string
  new_name :: string

type_synonym board_service = "api_call list \<Rightarrow> api_call \<Rightarrow> py_error + created"

record run_state =
  calls :: "api_call list"
  items_created :: nat
  subitems_created :: nat

text \<open>Issue a call: it is logged, and the service answers.\<close>

definition api :: "board_service \<Rightarrow> api_call \<Rightarrow> run_state \<Rightarrow> run_state \<times> (py_error + created)" where
  "api svc c st = (st\<lparr>calls := calls st @ [c]\<rparr>, svc (calls st) c)"

text \<open>Lines 285-293: the first column whose title contains \<open>platform\<close>, in any case.\<close>

fun find_platform_col :: "column list \<Rightarrow> column option" where
  "find_platform_col [] = None"
| "find_platform_col (col # cols) =
     (if contains ''platform'' (lower (column_title col)) then Some col
      else find_platform_col cols)"

text \<open>Lines 330-340: the group of the copy, from the title of the item's group.\<close>

definition target_group_name :: "string \<Rightarrow> string" where
  "target_group_name current_group =
     (if contains ''new colors'' (lower current_group) then ''SS26 New Colors''
      else if contains ''new styles'' (lower current_group) then ''SS26 New Styles''
      else if contains ''end of life'' (lower current_group) then ''End of Life Products''
      else ''SS26 New Colors'')"

text \<open>
  Lines 345-358: the loop over the item's column values. In the second test
  \<open>master_platform_col['id']\<close> is evaluated once \<open>col_text\<close> and \<open>col_id\<close> are both
  non-empty; subscripting \<open>None\<close> is a TypeError.
\<close>

fun extract_column_values ::
  "column option \<Rightarrow> column_value list \<Rightarrow> (string \<times> string) list \<Rightarrow> string option
   \<Rightarrow> py_error + (string \<times> string) list \<times> string option" where
  "extract_column_values master_platform_col [] column_values platform_value =
     Inr (column_values, platform_value)"
| "extract_column_values master_platform_col (col # cols) column_values platform_value =
     (let col_text = cv_text col;
          col_id = cv_id col;
          platform_value =
            (case master_platform_col of
               None \<Rightarrow> platform_value
             | Some m \<Rightarrow> if col_id = column_id m then Some col_text else platform_value)
      in if col_text \<noteq> [] \<and> col_id \<noteq> [] then
           (case master_platform_col of
              None \<Rightarrow> Inl TypeError
            | Some m \<Rightarrow>
                extract_column_values master_platform_col cols
                  (if col_id \<noteq> column_id m then AList.update col_id col_text column_values
                   else column_values)
                  platform_value)
         else extract_column_values master_platform_col cols column_values platform_value)"

text \<open>Lines 361-362: the platform value goes under the destination board's column id.\<close>

definition add_platform ::
  "column option \<Rightarrow> string option \<Rightarrow> (string \<times> string) list \<Rightarrow> (string \<times> string) list" where
  "add_platform proddev_platform_col platform_value column_values =
     (case (platform_value, proddev_platform_col) of
        (Some v, Some p) \<Rightarrow> if v \<noteq> [] then AList.update (column_id p) v column_values
                            else column_values
      | _ \<Rightarrow> column_values)"

text \<open>The test of line 380 on a column, for the proofs.\<close>

definition date_like :: "column_value \<Rightarrow> bool" where
  "date_like col = (contains ''launch'' (lower (cv_id col)) \<or> contains ''date'' (lower (cv_id col)))"

text \<open>
  Lines 378-383: the launch date is looked for in the columns whose id contains
  \<open>launch\<close> or \<open>date\<close>; the loop stops at the first text that parses.
\<close>

fun find_launch_date ::
  "interp \<Rightarrow> column_value list \<Rightarrow> datetime option \<Rightarrow> py_error + datetime option" where
  "find_launch_date env [] launch_date = Inr launch_date"
| "find_launch_date env (col # cols) launch_date =
     (if contains ''launch'' (lower (cv_id col)) \<or> contains ''date'' (lower (cv_id col)) then
        bind_err (parse_launch_date_dup env (cv_text col)) (\<lambda>launch_date.
          if launch_date \<noteq> None then Inr launch_date
          else find_launch_date env cols launch_date)
      else find_launch_date env cols launch_date)"

text \<open>
  Lines 389-412: one subitem per entry of the configuration, with its due date. The
  second component is the exception that ended the loop, if any.
\<close>

fun create_dated_subitems ::
  "interp \<Rightarrow> board_service \<Rightarrow> string \<Rightarrow> datetime \<Rightarrow> sub_item list \<Rightarrow> run_state
   \<Rightarrow> run_state \<times> py_error option" where
  "create_dated_subitems env svc parent launch_date [] st = (st, None)"
| "create_dated_subitems env svc parent launch_date (subitem_config # rest) st =
     (case calculate_due_date env (Some launch_date) (lead_time_weeks subitem_config) of
        Inl e \<Rightarrow> (st, Some e)
      | Inr due_date \<Rightarrow>
          (let subitem_column_values =
                 (case due_date of
                    None \<Rightarrow> [(''status'', ''Working on it'')]
                  | Some dd \<Rightarrow>
                      if dd \<noteq> [] then [(''status'', ''Working on it''), (''date'', dd)]
                      else [(''status'', ''Working on it'')])
           in case api svc (CreateSubitem parent (task_name subitem_config) subitem_column_values) st of
                (st', Inl e) \<Rightarrow> (st', Some e)
              | (st', Inr subitem) \<Rightarrow>
                  create_dated_subitems env svc parent launch_date rest
                    (st'\<lparr>subitems_created := subitems_created st' + 1\<rparr>)))"

text \<open>Lines 416-427: without a launch date, one subitem per entry with the status only.\<close>

fun create_undated_subitems ::
  "board_service \<Rightarrow> string \<Rightarrow> sub_item list \<Rightarrow> run_state \<Rightarrow> run_state \<times> py_error option" where
  "create_undated_subitems svc parent [] st = (st, None)"
| "create_undated_subitems svc parent (subitem_config # rest) st =
     (case api svc (CreateSubitem parent (task_name subitem_config)
                      [(''status'', ''Working on it'')]) st of
        (st', Inl e) \<Rightarrow> (st', Some e)
      | (st', Inr subitem) \<Rightarrow>
          create_undated_subitems svc parent rest
            (st'\<lparr>subitems_created := subitems_created st' + 1\<rparr>))"

text \<open>Lines 385-427: the subitems of the new item, with due dates if there is a launch date.\<close>

definition schedule_subitems ::
  "interp \<Rightarrow> board_service \<Rightarrow> string \<Rightarrow> datetime option \<Rightarrow> sub_item list \<Rightarrow> run_state
   \<Rightarrow> run_state \<times> py_error option" where
  "schedule_subitems env svc parent launch_date subitems st =
     (case launch_date of
        Some ld \<Rightarrow> create_dated_subitems env svc parent ld subitems st
      | None \<Rightarrow> create_undated_subitems svc parent subitems st)"

text \<open>
  What the loop over the items has at hand: the destination board, the ids of the three
  target groups (\<open>group_mapping\<close> is filled for each of them before the loop, so the
  lookup cannot fail), the platform column of each board and the subitem configuration.
\<close>

record dup_context =
  proddev_board_id :: string
  group_mapping :: "string \<Rightarrow> string"
  master_platform_col :: "column option"
  proddev_platform_col :: "column option"
  subitems_config :: "sub_item list"

text \<open>
  Lines 329-427, the body of the \<open>try\<close> for one item. The exception in the result is
  the one caught by \<open>except Exception\<close> on line 433, after which the loop goes on with
  the next item.
\<close>

definition process_item ::
  "interp \<Rightarrow> board_service \<Rightarrow> dup_context \<Rightarrow> item \<Rightarrow> run_state \<Rightarrow> run_state \<times> py_error option" where
  "process_item env svc ctx it st =
     (let target_group_id = group_mapping ctx (target_group_name (it_group_title it))
      in case extract_column_values (master_platform_col ctx) (it_column_values it) [] None of
           Inl e \<Rightarrow> (st, Some e)
         | Inr (column_values0, platform_value) \<Rightarrow>
             (let column_values1 = add_platform (proddev_platform_col ctx) platform_value column_values0
              in case api svc (CreateItem (proddev_board_id ctx) target_group_id (it_name it)
                                 column_values1) st of
                   (st1, Inl e) \<Rightarrow> (st1, Some e)
                 | (st1, Inr new_item) \<Rightarrow>
                     (let st2 = st1\<lparr>items_created := items_created st1 + 1\<rparr>
                      in case find_launch_date env (it_column_values it) None of
                           Inl e \<Rightarrow> (st2, Some e)
                         | Inr launch_date \<Rightarrow>
                             schedule_subitems env svc (new_id new_item) launch_date
                               (subitems_config ctx) st2)))"

text \<open>Lines 321-435: every item in turn; an exception ends that item only.\<close>

fun process_items ::
  "interp \<Rightarrow> board_service \<Rightarrow> dup_context \<Rightarrow> item list \<Rightarrow> run_state \<Rightarrow> run_state" where
  "process_items env svc ctx [] st = st"
| "process_items env svc ctx (it # items) st =
     process_items env svc ctx items (fst (process_item env svc ctx it st))"

section \<open>Generating a department's CSV (\<open>generate_monday_boards.py\<close>)\<close>








section \<open>Adding subitems from a CSV (\<open>scripts/add_subitems_to_monday.py\<close>)\<close>




section \<open>The classification rule as the specification words it\<close>

text \<open>
  An ordered list of rules (a text to find, the group it selects); the first rule whose
  text occurs in the lower-cased title wins, and a fixed default applies when none does.
\<close>

definition is_substring :: "string \<Rightarrow> string \<Rightarrow> bool" where
  "is_substring sub s = (\<exists>before after. s = before @ sub @ after)"

definition classification_rules :: "(string \<times> string) list" where
  "classification_rules =
     [(''new colors'', ''SS26 New Colors''),
      (''new styles'', ''SS26 New Styles''),
      (''end of life'', ''End of Life Products'')]"

definition default_group :: string where
  "default_group = ''SS26 New Colors''"

fun first_matching_rule :: "(string \<times> string) list \<Rightarrow> string \<Rightarrow> string option" where
  "first_matching_rule [] s = None"
| "first_matching_rule ((sub, grp) # rules) s =
     (if is_substring sub s then Some grp else first_matching_rule rules s)"

definition classifyGroup_spec :: "string \<Rightarrow> string" where
  "classifyGroup_spec sourceGroupTitle =
     (case first_matching_rule classification_rules (lower sourceGroupTitle) of
        Some grp \<Rightarrow> grp
      | None \<Rightarrow> default_group)"

section \<open>The schedule as the specification words it\<close>

text \<open>
  One task per template: its name, the fixed status and, when there is a launch date,
  the due date that \<open>calculate_due_date\<close> gives for the template's lead time; as the
  request that creates the subitem under \<open>parent\<close>.
\<close>

definition scheduled_task :: "interp \<Rightarrow> string \<Rightarrow> datetime option \<Rightarrow> sub_item \<Rightarrow> api_call" where
  "scheduled_task env parent launch_date template =
     CreateSubitem parent (task_name template)
       (case calculate_due_date env launch_date (lead_time_weeks template) of
          Inr (Some dueDate) \<Rightarrow> [(''status'', ''Working on it''), (''date'', dueDate)]
        | _ \<Rightarrow> [(''status'', ''Working on it'')])"

definition expandSchedule_spec ::
  "interp \<Rightarrow> string \<Rightarrow> datetime option \<Rightarrow> sub_item list \<Rightarrow> api_call list" where
  "expandSchedule_spec env parent launch_date templates =
     map (scheduled_task env parent launch_date) templates"

section \<open>Two board services, for the examples\<close>

text \<open>One that accepts every call and numbers what it creates, one that refuses every call.\<close>

definition accepting_service :: board_service where
  "accepting_service history c =
     Inr \<lparr>new_id = str_nat (length history),
          new_name = (case c of CreateItem b g n cv \<Rightarrow> n | CreateSubitem p n cv \<Rightarrow> n
                      | ClientCreateItem b n cv \<Rightarrow> n)\<rparr>"

definition refusing_service :: board_service where
  "refusing_service history c = Inl ApiError"

section \<open>A context and a configuration, for the examples\<close>



section \<open>The calendar arithmetic of \<open>datetime\<close>\<close>

lemma dbm_nth:
  "DAYS_BEFORE_MONTH ! Suc 0 = 0" "DAYS_BEFORE_MONTH ! 2 = 31" "DAYS_BEFORE_MONTH ! 3 = 59"
  "DAYS_BEFORE_MONTH ! 4 = 90" "DAYS_BEFORE_MONTH ! 5 = 120" "DAYS_BEFORE_MONTH ! 6 = 151"
  "DAYS_BEFORE_MONTH ! 7 = 181" "DAYS_BEFORE_MONTH ! 8 = 212" "DAYS_BEFORE_MONTH ! 9 = 243"
  "DAYS_BEFORE_MONTH ! 10 = 273" "DAYS_BEFORE_MONTH ! 11 = 304" "DAYS_BEFORE_MONTH ! 12 = 334"
  by (simp_all add: DAYS_BEFORE_MONTH_def)

lemma dim_nth:
  "DAYS_IN_MONTH ! Suc 0 = 31" "DAYS_IN_MONTH ! 2 = 28" "DAYS_IN_MONTH ! 3 = 31"
  "DAYS_IN_MONTH ! 4 = 30" "DAYS_IN_MONTH ! 5 = 31" "DAYS_IN_MONTH ! 6 = 30"
  "DAYS_IN_MONTH ! 7 = 31" "DAYS_IN_MONTH ! 8 = 31" "DAYS_IN_MONTH ! 9 = 30"
  "DAYS_IN_MONTH ! 10 = 31" "DAYS_IN_MONTH ! 11 = 30" "DAYS_IN_MONTH ! 12 = 31"
  by (simp_all add: DAYS_IN_MONTH_def)

lemma month_day_ok:
  assumes "0 \<le> n" "n \<le> 364 + (if lp then 1 else 0)"
  shows "case month_day lp n of (m, d) \<Rightarrow>
           1 \<le> m \<and> m \<le> 12 \<and> 1 \<le> d
           \<and> d \<le> (if m = 2 \<and> lp then 29 else DAYS_IN_MONTH ! nat m)
           \<and> DAYS_BEFORE_MONTH ! nat m + (if m > 2 \<and> lp then 1 else 0) + d = n + 1"
proof -
  define mo where "mo = (n + 50) div 32"
  have b: "32 * mo \<le> n + 50" "n + 50 < 32 * mo + 32"
    unfolding mo_def by presburger+
  have "1 \<le> mo" "mo \<le> 12" using b assms by (auto split: if_splits)
  then have cases: "mo = 1 \<or> mo = 2 \<or> mo = 3 \<or> mo = 4 \<or> mo = 5 \<or> mo = 6
      \<or> mo = 7 \<or> mo = 8 \<or> mo = 9 \<or> mo = 10 \<or> mo = 11 \<or> mo = 12"
    by presburger
  show ?thesis
    using cases b assms unfolding month_day_def Let_def mo_def[symmetric]
    by (elim disjE) (simp_all add: dbm_nth dim_nth)
qed


lemma days_before_year_decomp:
  fixes q a b c :: int
  assumes "0 \<le> a" "a \<le> 3" "0 \<le> b" "b \<le> 24" "0 \<le> c" "c \<le> 3"
  shows "days_before_year (q * 400 + 1 + (a * 100 + b * 4 + c))
         = 146097 * q + 36524 * a + 1461 * b + 365 * c"
proof -
  define Y where "Y = q * 400 + (a * 100 + b * 4 + c)"
  have d4: "Y div 4 = 100 * q + 25 * a + b"
    by (rule int_div_pos_eq[where r = c]) (use assms in \<open>simp_all add: Y_def\<close>)
  have d100: "Y div 100 = 4 * q + a"
    by (rule int_div_pos_eq[where r = "4 * b + c"]) (use assms in \<open>simp_all add: Y_def\<close>)
  have d400: "Y div 400 = q"
    by (rule int_div_pos_eq[where r = "100 * a + 4 * b + c"]) (use assms in \<open>simp_all add: Y_def\<close>)
  have "days_before_year (Y + 1) = Y * 365 + Y div 4 - Y div 100 + Y div 400"
    by (simp add: days_before_year_def Let_def)
  also have "\<dots> = 146097 * q + 36524 * a + 1461 * b + 365 * c"
    unfolding d4 d100 d400 by (simp add: Y_def)
  finally show ?thesis by (simp add: Y_def algebra_simps)
qed


lemma mod_zero_iff_full:
  fixes k x R :: int
  assumes "1 \<le> R" "R \<le> k"
  shows "(k * x + R) mod k = 0 \<longleftrightarrow> R = k"
proof (cases "R = k")
  case True
  then show ?thesis by simp
next
  case False
  with assms have "R mod k = R" by simp
  then have "(k * x + R) mod k = R" by simp
  with False assms show ?thesis by simp
qed

lemma is_leap_decomp:
  fixes q a b c :: int
  assumes "0 \<le> a" "a \<le> 3" "0 \<le> b" "b \<le> 24" "0 \<le> c" "c \<le> 3"
  shows "is_leap (q * 400 + 1 + (a * 100 + b * 4 + c)) \<longleftrightarrow> (c = 3 \<and> (b \<noteq> 24 \<or> a = 3))"
proof -
  define Y where "Y = q * 400 + 1 + (a * 100 + b * 4 + c)"
  have f4: "Y = 4 * (100 * q + 25 * a + b) + (c + 1)" by (simp add: Y_def)
  have f100: "Y = 100 * (4 * q + a) + (4 * b + c + 1)" by (simp add: Y_def)
  have f400: "Y = 400 * q + (100 * a + 4 * b + c + 1)" by (simp add: Y_def)
  have e4: "Y mod 4 = 0 \<longleftrightarrow> c + 1 = 4"
    unfolding f4 by (rule mod_zero_iff_full) (use assms in simp_all)
  have e100: "Y mod 100 = 0 \<longleftrightarrow> 4 * b + c + 1 = 100"
    unfolding f100 by (rule mod_zero_iff_full) (use assms in simp_all)
  have e400: "Y mod 400 = 0 \<longleftrightarrow> 100 * a + 4 * b + c + 1 = 400"
    unfolding f400 by (rule mod_zero_iff_full) (use assms in simp_all)
  show ?thesis
    unfolding is_leap_def Y_def[symmetric] e4 e100 e400 using assms by auto
qed


lemma ord2ymd_ok:
  "case ord2ymd n of (y, m, d) \<Rightarrow>
     ymd2ord y m d = n \<and> 1 \<le> m \<and> m \<le> 12 \<and> 1 \<le> d \<and> d \<le> days_in_month y m
     \<and> (1 \<le> n \<longrightarrow> 1 \<le> y)"
proof -
  define q where "q = (n - 1) div 146097"
  define r where "r = (n - 1) mod 146097"
  define a where "a = r div 36524"
  define r2 where "r2 = r mod 36524"
  define b where "b = r2 div 1461"
  define r3 where "r3 = r2 mod 1461"
  define c where "c = r3 div 365"
  define r4 where "r4 = r3 mod 365"
  define lp where "lp = (c = 3 \<and> (b \<noteq> 24 \<or> a = 3))"
  have n: "n = 146097 * q + r + 1" and r: "0 \<le> r" "r < 146097"
    unfolding q_def r_def by simp_all
  have r': "r = 36524 * a + r2" and r2: "0 \<le> r2" "r2 < 36524"
    unfolding a_def r2_def by simp_all
  have r2': "r2 = 1461 * b + r3" and r3: "0 \<le> r3" "r3 < 1461"
    unfolding b_def r3_def by simp_all
  have r3': "r3 = 365 * c + r4" and r4: "0 \<le> r4" "r4 < 365"
    unfolding c_def r4_def by simp_all
  have q: "1 \<le> n \<Longrightarrow> 0 \<le> q"
    unfolding q_def by (simp add: pos_imp_zdiv_nonneg_iff)
  have a: "0 \<le> a" "a \<le> 4" using r r' r2 by linarith+
  have b: "0 \<le> b" "b \<le> 24" using r2 r2' r3 by linarith+
  have c: "0 \<le> c" "c \<le> 4" using r3 r3' r4 by linarith+
  have o: "ord2ymd n =
      (if c = 4 \<or> a = 4 then (q * 400 + 1 + (a * 100 + b * 4 + c) - 1, 12, 31)
       else (case month_day lp r4 of (mo, d) \<Rightarrow> (q * 400 + 1 + (a * 100 + b * 4 + c), mo, d)))"
    unfolding ord2ymd_def Let_def DI400Y_def DI100Y_def DI4Y_def
      q_def r_def a_def r2_def b_def r3_def c_def r4_def lp_def ..
  show ?thesis
  proof (cases "c = 4 \<or> a = 4")
    case True
    then obtain a' b' where y: "q * 400 + 1 + (a * 100 + b * 4 + c) - 1
          = q * 400 + 1 + (a' * 100 + b' * 4 + 3)"
        and ab: "0 \<le> a'" "a' \<le> 3" "0 \<le> b'" "b' \<le> 24" "b' \<noteq> 24 \<or> a' = 3"
        and nn: "n = 146097 * q + 36524 * a' + 1461 * b' + 1461"
    proof (cases "a = 4")
      case True
      with r r' r2 r2' r3 r3' r4 b c have "b = 0" "c = 0" "r4 = 0" "r2 = 0" "r3 = 0" by linarith+
      with True n r' show ?thesis by (intro that[of 3 24]) simp_all
    next
      case False
      with \<open>c = 4 \<or> a = 4\<close> have c4: "c = 4" by simp
      with r3 r3' r4 have "r4 = 0" "r3 = 1460" by linarith+
      with r2 r2' b have "b \<le> 23" by linarith
      with False a b c4 n r' r2' \<open>r3 = 1460\<close> show ?thesis by (intro that[of a b]) simp_all
    qed
    define Y' where "Y' = q * 400 + 1 + (a' * 100 + b' * 4 + 3)"
    have lp3: "is_leap Y'"
      unfolding Y'_def using is_leap_decomp[of a' b' 3 q] ab by simp
    have dby: "days_before_year Y' = 146097 * q + 36524 * a' + 1461 * b' + 365 * 3"
      unfolding Y'_def using days_before_year_decomp[of a' b' 3 q] ab by simp
    have res: "ord2ymd n = (Y', 12, 31)"
      unfolding o Y'_def using True y by simp
    have "1 \<le> n \<Longrightarrow> 1 \<le> Y'"
      unfolding Y'_def using q ab by linarith
    then show ?thesis
      unfolding res
      by (simp add: ymd2ord_def dby lp3 days_before_month_def days_in_month_def
          dbm_nth dim_nth nn)
  next
    case False
    then have a3: "a \<le> 3" and c3: "c \<le> 3" using a c by auto
    define Y where "Y = q * 400 + 1 + (a * 100 + b * 4 + c)"
    have lpe: "is_leap Y = lp"
      unfolding lp_def Y_def using is_leap_decomp[of a b c q] a a3 b c c3 by simp
    have dby: "days_before_year Y = 146097 * q + 36524 * a + 1461 * b + 365 * c"
      unfolding Y_def using days_before_year_decomp[of a b c q] a a3 b c c3 by simp
    obtain mo d where md: "month_day lp r4 = (mo, d)" by (cases "month_day lp r4")
    have "0 \<le> r4" "r4 \<le> 364 + (if lp then 1 else 0)" using r4 by auto
    from month_day_ok[OF this] md
    have k: "1 \<le> mo" "mo \<le> 12" "1 \<le> d"
        "d \<le> (if mo = 2 \<and> lp then 29 else DAYS_IN_MONTH ! nat mo)"
        "DAYS_BEFORE_MONTH ! nat mo + (if mo > 2 \<and> lp then 1 else 0) + d = r4 + 1"
      by simp_all
    have res: "ord2ymd n = (Y, mo, d)"
      unfolding o Y_def using False by (simp add: md)
    have "ymd2ord Y mo d = n"
      unfolding ymd2ord_def dby days_before_month_def lpe
      using k(5) n r' r2' r3' by linarith
    moreover have "d \<le> days_in_month Y mo"
      unfolding days_in_month_def lpe using k(4) by simp
    moreover have "1 \<le> n \<Longrightarrow> 1 \<le> Y"
      unfolding Y_def using q a b c by linarith
    ultimately show ?thesis
      unfolding res using k(1-3) by simp
  qed
qed


lemma days_before_year_large:
  assumes "10000 \<le> y"
  shows "3652059 \<le> days_before_year y"
proof -
  define z where "z = y - 1"
  define A where "A = z div 4"
  define B where "B = z div 100"
  define C where "C = z div 400"
  have "4 * A \<ge> z - 3" "100 * B \<le> z" "400 * C \<ge> z - 399"
    unfolding A_def B_def C_def by presburger+
  moreover have "9999 \<le> z" using assms by (simp add: z_def)
  ultimately have "z * 365 + A - B + C > 3652058"
    by linarith
  then show ?thesis
    unfolding days_before_year_def Let_def z_def[symmetric] A_def B_def C_def by linarith
qed

lemma days_before_month_nonneg:
  assumes "1 \<le> m" "m \<le> 12"
  shows "0 \<le> days_before_month y m"
proof -
  from assms have "m = 1 \<or> m = 2 \<or> m = 3 \<or> m = 4 \<or> m = 5 \<or> m = 6
      \<or> m = 7 \<or> m = 8 \<or> m = 9 \<or> m = 10 \<or> m = 11 \<or> m = 12"
    by presburger
  then show ?thesis
    unfolding days_before_month_def by (elim disjE) (simp_all add: dbm_nth)
qed

lemma ord2ymd_valid:
  assumes "1 \<le> n" "n \<le> MAXORDINAL"
  shows "case ord2ymd n of (y, m, d) \<Rightarrow> ymd2ord y m d = n \<and> check_date_fields y m d"
proof -
  obtain y m d where e: "ord2ymd n = (y, m, d)" by (cases "ord2ymd n")
  from ord2ymd_ok[of n] e assms(1)
  have k: "ymd2ord y m d = n" "1 \<le> m" "m \<le> 12" "1 \<le> d" "d \<le> days_in_month y m" "1 \<le> y"
    by simp_all
  have "y \<le> 9999"
  proof (rule ccontr)
    assume "\<not> y \<le> 9999"
    then have "3652059 \<le> days_before_year y" by (intro days_before_year_large) simp
    with k(1,4) days_before_month_nonneg[OF k(2,3), of y] assms(2)
    show False by (simp add: ymd2ord_def MAXORDINAL_def)
  qed
  with k show ?thesis
    unfolding e by (simp add: check_date_fields_def MINYEAR_def MAXYEAR_def)
qed


lemma days_before_year_small:
  assumes "y \<le> 9998"
  shows "days_before_year y \<le> 3651330"
proof -
  define z where "z = y - 1"
  define A where "A = z div 4"
  define B where "B = z div 100"
  define C where "C = z div 400"
  have "4 * A \<le> z" "100 * B \<ge> z - 99" "400 * C \<le> z"
    unfolding A_def B_def C_def by presburger+
  moreover have "z \<le> 9997" using assms by (simp add: z_def)
  ultimately have "z * 365 + A - B + C \<le> 3651330"
    by linarith
  then show ?thesis
    unfolding days_before_year_def Let_def z_def[symmetric] A_def B_def C_def by linarith
qed

lemma days_before_year_nonneg:
  assumes "1 \<le> y"
  shows "0 \<le> days_before_year y"
proof -
  define z where "z = y - 1"
  define B where "B = z div 100"
  have z: "0 \<le> z" using assms by (simp add: z_def)
  then have "0 \<le> z div 4" "0 \<le> z div 400" "0 \<le> B"
    by (simp_all add: B_def pos_imp_zdiv_nonneg_iff)
  moreover have "100 * B \<le> z" unfolding B_def by presburger
  ultimately have "0 \<le> z * 365 + z div 4 - B + z div 400" using z by linarith
  then show ?thesis
    unfolding days_before_year_def Let_def z_def[symmetric] B_def by linarith
qed

lemma day_of_year_le:
  assumes "1 \<le> m" "m \<le> 12" "d \<le> days_in_month y m"
  shows "days_before_month y m + d \<le> 365 + (if is_leap y then 1 else 0)"
proof -
  from assms have "m = 1 \<or> m = 2 \<or> m = 3 \<or> m = 4 \<or> m = 5 \<or> m = 6
      \<or> m = 7 \<or> m = 8 \<or> m = 9 \<or> m = 10 \<or> m = 11 \<or> m = 12"
    by presburger
  then show ?thesis
    using assms(3) unfolding days_before_month_def days_in_month_def
    by (elim disjE) (simp_all add: dbm_nth dim_nth split: if_splits)
qed

lemma toordinal_range:
  assumes "valid_datetime dt"
  shows "1 \<le> toordinal dt \<and> toordinal dt \<le> MAXORDINAL"
proof -
  from assms have v: "1 \<le> year dt" "year dt \<le> 9999" "1 \<le> month dt" "month dt \<le> 12"
      "1 \<le> day dt" "day dt \<le> days_in_month (year dt) (month dt)"
    by (simp_all add: valid_datetime_def check_date_fields_def MINYEAR_def MAXYEAR_def)
  have lo: "1 \<le> toordinal dt"
    using days_before_year_nonneg[OF v(1)] days_before_month_nonneg[OF v(3,4), of "year dt"] v(5)
    by (simp add: toordinal_def ymd2ord_def)
  have doy: "days_before_month (year dt) (month dt) + day dt
      \<le> 365 + (if is_leap (year dt) then 1 else 0)"
    by (rule day_of_year_le[OF v(3,4,6)])
  have hi: "toordinal dt \<le> 3652059"
  proof (cases "year dt = 9999")
    case True
    have "\<not> is_leap 9999" by (simp add: is_leap_def)
    moreover have "days_before_year 9999 = 3651694" by (simp add: days_before_year_def)
    ultimately show ?thesis using doy True by (simp add: toordinal_def ymd2ord_def)
  next
    case False
    with v(2) have "year dt \<le> 9998" by simp
    from days_before_year_small[OF this] doy show ?thesis
      by (simp add: toordinal_def ymd2ord_def split: if_splits)
  qed
  from lo hi show ?thesis by (simp add: MAXORDINAL_def)
qed

lemma datetime_add_ok:
  assumes "valid_datetime dt" "1 \<le> toordinal dt + delta" "toordinal dt + delta \<le> MAXORDINAL"
  shows "\<exists>r. datetime_add dt delta = Inr r \<and> valid_datetime r
          \<and> toordinal r = toordinal dt + delta
          \<and> hour r = hour dt \<and> minute r = minute dt \<and> second r = second dt"
proof -
  obtain y m d where e: "ord2ymd (toordinal dt + delta) = (y, m, d)"
    by (cases "ord2ymd (toordinal dt + delta)")
  from ord2ymd_valid[OF assms(2,3)] e
  have k: "ymd2ord y m d = toordinal dt + delta" "check_date_fields y m d" by simp_all
  have "datetime_add dt delta = Inr (dt\<lparr>year := y, month := m, day := d\<rparr>)"
    using assms(2,3) e by (simp add: datetime_add_def Let_def)
  moreover have "valid_datetime (dt\<lparr>year := y, month := m, day := d\<rparr>)"
    using assms(1) k(2) by (simp add: valid_datetime_def)
  moreover have "toordinal (dt\<lparr>year := y, month := m, day := d\<rparr>) = toordinal dt + delta"
    using k(1) by (simp add: toordinal_def)
  ultimately show ?thesis by simp
qed

lemma datetime_add_overflow:
  assumes "toordinal dt + delta < 1 \<or> MAXORDINAL < toordinal dt + delta"
  shows "datetime_add dt delta = Inl OverflowError"
  using assms by (auto simp: datetime_add_def Let_def)


section \<open>Parsing a launch date\<close>

lemma parse_launch_date_shape:
  "parse_launch_date_gmb env s
     = parse_with_formats env s [''%Y-%m-%d'', ''%m/%d/%Y'', ''%d/%m/%Y'', ''%Y-%m-%d %H:%M:%S'']"
  "parse_launch_date_msm env s
     = parse_with_formats env s [''%Y-%m-%d'', ''%m/%d/%Y'', ''%d/%m/%Y'', ''%Y-%m-%d %H:%M:%S'']"
  "parse_launch_date_dup env s = parse_with_formats env s [''%Y-%m-%d'', ''%m/%d/%Y'', ''%d/%m/%Y'']"
  "parse_launch_date_gpd env s = parse_with_formats env s [''%Y-%m-%d'', ''%m/%d/%Y'', ''%d/%m/%Y'']"
  "parse_launch_date_add env s = parse_with_formats env s [''%Y-%m-%d'', ''%m/%d/%Y'', ''%d/%m/%Y'']"
  unfolding parse_launch_date_gmb_def parse_launch_date_msm_def parse_launch_date_dup_def
    parse_launch_date_gpd_def parse_launch_date_add_def parse_with_formats_def
  by (rule refl)+

lemma mk_datetime_error: "mk_datetime y m d h mi s = Inl e \<Longrightarrow> e = ValueError"
  by (simp add: mk_datetime_def split: if_splits)

lemma strptime_error: "strptime s fmt = Inl e \<Longrightarrow> e = ValueError"
  by (auto simp: strptime_def dest: mk_datetime_error split: option.splits list.splits if_splits)

lemma for_date_formats_Some:
  "for_date_formats s fmts = Inr (Some d) \<longleftrightarrow>
     (\<exists>i < length fmts. strptime (strip s) (fmts ! i) = Inr d
        \<and> (\<forall>j < i. strptime (strip s) (fmts ! j) = Inl ValueError))"
proof (induction fmts)
  case Nil
  then show ?case by simp
next
  case (Cons f fmts)
  show ?case
  proof (cases "strptime (strip s) f")
    case (Inl e)
    then have e: "e = ValueError" by (rule strptime_error)
    have "(\<exists>i < length (f # fmts). strptime (strip s) ((f # fmts) ! i) = Inr d
            \<and> (\<forall>j < i. strptime (strip s) ((f # fmts) ! j) = Inl ValueError))
        \<longleftrightarrow> (\<exists>i < length fmts. strptime (strip s) (fmts ! i) = Inr d
            \<and> (\<forall>j < i. strptime (strip s) (fmts ! j) = Inl ValueError))"
      (is "?L \<longleftrightarrow> ?R")
    proof
      assume ?L
      then obtain i where i: "i < length (f # fmts)" "strptime (strip s) ((f # fmts) ! i) = Inr d"
          "\<forall>j < i. strptime (strip s) ((f # fmts) ! j) = Inl ValueError" by blast
      with Inl obtain k where k: "i = Suc k" by (cases i) auto
      with i have "k < length fmts" "strptime (strip s) (fmts ! k) = Inr d" by simp_all
      moreover have "\<forall>j < k. strptime (strip s) (fmts ! j) = Inl ValueError"
      proof (intro allI impI)
        fix j assume "j < k"
        then have "Suc j < i" using k by simp
        with i(3) have "strptime (strip s) ((f # fmts) ! Suc j) = Inl ValueError" by blast
        then show "strptime (strip s) (fmts ! j) = Inl ValueError" by simp
      qed
      ultimately show ?R by blast
    next
      assume ?R
      then obtain i where i: "i < length fmts" "strptime (strip s) (fmts ! i) = Inr d"
          "\<forall>j < i. strptime (strip s) (fmts ! j) = Inl ValueError" by blast
      have "\<forall>j < Suc i. strptime (strip s) ((f # fmts) ! j) = Inl ValueError"
      proof (intro allI impI)
        fix j assume "j < Suc i"
        then show "strptime (strip s) ((f # fmts) ! j) = Inl ValueError"
          using Inl e i(3) by (cases j) auto
      qed
      with i(1,2) show ?L by (intro exI[of _ "Suc i"]) simp
    qed
    with Inl e Cons.IH show ?thesis by simp
  next
    case (Inr d')
    have "(\<exists>i < length (f # fmts). strptime (strip s) ((f # fmts) ! i) = Inr d
            \<and> (\<forall>j < i. strptime (strip s) ((f # fmts) ! j) = Inl ValueError)) \<longleftrightarrow> d' = d"
    proof
      assume "\<exists>i < length (f # fmts). strptime (strip s) ((f # fmts) ! i) = Inr d
            \<and> (\<forall>j < i. strptime (strip s) ((f # fmts) ! j) = Inl ValueError)"
      then obtain i where i: "strptime (strip s) ((f # fmts) ! i) = Inr d"
          "\<forall>j < i. strptime (strip s) ((f # fmts) ! j) = Inl ValueError" by blast
      show "d' = d"
      proof (cases i)
        case 0
        with i(1) Inr show ?thesis by simp
      next
        case (Suc k)
        with i(2) have "strptime (strip s) ((f # fmts) ! 0) = Inl ValueError" by blast
        with Inr show ?thesis by simp
      qed
    next
      assume "d' = d"
      with Inr show "\<exists>i < length (f # fmts). strptime (strip s) ((f # fmts) ! i) = Inr d
            \<and> (\<forall>j < i. strptime (strip s) ((f # fmts) ! j) = Inl ValueError)"
        by (intro exI[of _ 0]) simp
    qed
    with Inr show ?thesis by simp
  qed
qed

lemma for_date_formats_None:
  "for_date_formats s fmts = Inr None \<longleftrightarrow>
     (\<forall>i < length fmts. strptime (strip s) (fmts ! i) = Inl ValueError)"
proof (induction fmts)
  case Nil
  then show ?case by simp
next
  case (Cons f fmts)
  show ?case
  proof (cases "strptime (strip s) f")
    case (Inl e)
    then have e: "e = ValueError" by (rule strptime_error)
    have "(\<forall>i < length (f # fmts). strptime (strip s) ((f # fmts) ! i) = Inl ValueError)
        \<longleftrightarrow> (\<forall>i < length fmts. strptime (strip s) (fmts ! i) = Inl ValueError)"
      using Inl e by (auto simp: nth_Cons split: nat.splits)
    with Inl e Cons.IH show ?thesis by simp
  next
    case (Inr d')
    then have "\<not> (\<forall>i < length (f # fmts). strptime (strip s) ((f # fmts) ! i) = Inl ValueError)"
      by (auto intro: exI[of _ 0])
    with Inr show ?thesis by simp
  qed
qed

lemma for_date_formats_no_raise: "for_date_formats s fmts \<noteq> Inl e"
  by (induction fmts) (auto dest: strptime_error split: sum.splits)


lemma isdigit_char_not_space: "py_isdigit_char c \<Longrightarrow> \<not> py_isspace c"
  by (auto simp: py_isdigit_char_def ascii_digit_def py_isspace_def)

lemma ascii_digit_isdigit: "ascii_digit c \<Longrightarrow> py_isdigit_char c"
  by (simp add: py_isdigit_char_def)

lemma strip_no_blank_ends:
  assumes "s \<noteq> []" "\<not> py_isspace (hd s)" "\<not> py_isspace (last s)"
  shows "strip s = s"
proof -
  have "dropWhile py_isspace s = s" using assms(1,2) by (cases s) simp_all
  moreover have "dropWhile py_isspace (rev s) = rev s"
    using assms(1,3) by (cases "rev s") (simp_all add: last_rev[symmetric] hd_rev)
  ultimately show ?thesis by (simp add: strip_def)
qed

lemma strip_isdigit:
  assumes "py_isdigit s"
  shows "strip s = s"
proof -
  from assms have ne: "s \<noteq> []" and all: "\<forall>c \<in> set s. py_isdigit_char c"
    by (simp_all add: py_isdigit_def list_all_iff)
  from ne all have "py_isdigit_char (hd s)" "py_isdigit_char (last s)" by simp_all
  then show ?thesis using ne by (intro strip_no_blank_ends) (simp_all add: isdigit_char_not_space)
qed

lemma base_date_facts:
  "mk_datetime 1899 12 30 0 0 0
     = Inr \<lparr>year = 1899, month = 12, day = 30, hour = 0, minute = 0, second = 0\<rparr>"
  "valid_datetime \<lparr>year = 1899, month = 12, day = 30, hour = 0, minute = 0, second = 0\<rparr>"
  "toordinal \<lparr>year = 1899, month = 12, day = 30, hour = 0, minute = 0, second = 0\<rparr> = 693594"
  by code_simp+

lemma parse_with_formats_serial:
  assumes "s \<noteq> []" and "list_all ascii_digit s"
    and "int_max_str_digits env = 0 \<or> length s \<le> int_max_str_digits env"
  shows "parse_with_formats env s fmts =
           (if digits_val 0 s \<le> 2958465
            then map_sum id Some
                   (datetime_add \<lparr>year = 1899, month = 12, day = 30, hour = 0, minute = 0, second = 0\<rparr>
                      (int (digits_val 0 s)))
            else Inl OverflowError)"
proof -
  have dig: "py_isdigit s"
    using assms(1,2) by (auto simp: py_isdigit_def list_all_iff ascii_digit_isdigit)
  then have st: "strip s = s" by (rule strip_isdigit)
  have pi: "py_int env s = Inr (int (digits_val 0 s))"
    using assms by (auto simp: py_int_def)
  let ?base = "\<lparr>year = 1899, month = 12, day = 30, hour = 0, minute = 0, second = 0\<rparr>"
  let ?n = "int (digits_val 0 s)"
  show ?thesis
  proof (cases "digits_val 0 s \<le> 2958465")
    case True
    then have "1 \<le> toordinal ?base + ?n" "toordinal ?base + ?n \<le> MAXORDINAL"
      by (simp_all add: base_date_facts MAXORDINAL_def)
    from datetime_add_ok[OF base_date_facts(2) this]
    obtain r where r: "datetime_add ?base ?n = Inr r" by blast
    have td: "timedelta_days ?n = Inr ?n" using True by (simp add: timedelta_days_def)
    show ?thesis
      using True assms(1) dig st
      by (simp add: parse_with_formats_def pi base_date_facts(1) td r bind_err_def
          try_except_ValueError_pass_def)
  next
    case False
    have ov: "bind_err (timedelta_days ?n) (\<lambda>delta. bind_err (datetime_add ?base delta)
                (\<lambda>d. Inr (Some d))) = Inl OverflowError"
    proof (cases "\<bar>?n\<bar> \<le> 999999999")
      case True
      have "MAXORDINAL < toordinal ?base + ?n"
        using False by (simp add: base_date_facts MAXORDINAL_def)
      then have "datetime_add ?base ?n = Inl OverflowError"
        by (intro datetime_add_overflow) simp
      with True show ?thesis by (simp add: timedelta_days_def bind_err_def)
    next
      case False
      then show ?thesis by (simp add: timedelta_days_def bind_err_def)
    qed
    show ?thesis
      using False assms(1) dig st
      by (simp add: parse_with_formats_def pi base_date_facts(1) ov[unfolded bind_err_def]
          bind_err_def try_except_ValueError_pass_def)
  qed
qed


lemma parse_with_formats_not_digit:
  assumes "\<not> py_isdigit s" "strip s \<noteq> []"
  shows "parse_with_formats env s fmts = for_date_formats s fmts"
proof -
  from assms(2) have "s \<noteq> []" by (auto simp: strip_def)
  with assms show ?thesis
    by (simp add: parse_with_formats_def try_except_ValueError_pass_def)
qed

lemma parse_with_formats_blank:
  assumes "strip s = []"
  shows "parse_with_formats env s fmts = Inr None"
  using assms by (simp add: parse_with_formats_def)


section \<open>What a match of a format consumes\<close>













lemma pattern_formats:
  "pattern ''%Y-%m-%d'' = Some [DirY, Lit CHR ''-'', Dirm, Lit CHR ''-'', Dird]"
  "pattern ''%m/%d/%Y'' = Some [Dirm, Lit CHR ''/'', Dird, Lit CHR ''/'', DirY]"
  "pattern ''%d/%m/%Y'' = Some [Dird, Lit CHR ''/'', Dirm, Lit CHR ''/'', DirY]"
  "pattern ''%Y-%m-%d %H:%M:%S''
     = Some [DirY, Lit CHR ''-'', Dirm, Lit CHR ''-'', Dird, Spaces,
             DirH, Lit CHR '':'', DirM, Lit CHR '':'', DirS]"
  by (simp_all add: pattern.simps directive_def py_isspace_def)





lemma strptime_empty:
  "strptime [] ''%Y-%m-%d'' = Inl ValueError"
  "strptime [] ''%m/%d/%Y'' = Inl ValueError"
  "strptime [] ''%d/%m/%Y'' = Inl ValueError"
  "strptime [] ''%Y-%m-%d %H:%M:%S'' = Inl ValueError"
  by (simp_all add: strptime_def pattern_formats)





section \<open>The claims about the date helpers\<close>

text \<open>
  C1 (as amended). For a launch date \<open>d\<close> and a lead time of \<open>w \<ge> 0\<close> weeks such that
  the day \<open>7 * w\<close> days before \<open>d\<close> is not before 0001-01-01, \<open>calculate_due_date\<close>
  returns that day, at the time of day of \<open>d\<close>, formatted by \<open>strftime('%Y-%m-%d')\<close>: four
  digits, two, two, when the year has four digits or the platform pads it. Nothing
  bounds the result from below by the current day. Without a launch date the result is
  \<open>None\<close> for every lead time, and \<open>calculate_due_date(2025-12-01, 12)\<close> is \<open>2025-09-08\<close>.
\<close>

theorem calculate_due_date_weeks_before:
  "(valid_datetime d \<and> 0 \<le> w \<and> 1 \<le> toordinal d - 7 * w \<longrightarrow>
      (\<exists>due. calculate_due_date env (Some d) w = Inr (Some (strftime_ymd env due))
            \<and> valid_datetime due \<and> toordinal due = toordinal d - 7 * w
            \<and> hour due = hour d \<and> minute due = minute d \<and> second due = second d
            \<and> (strftime_pads_year env \<or> 1000 \<le> year due \<longrightarrow>
                 strftime_ymd env due
                   = pad4 (nat (year due)) @ ''-'' @ pad2 (nat (month due)) @ ''-''
                     @ pad2 (nat (day due)))))
   \<and> calculate_due_date env None v = Inr None
   \<and> calculate_due_date env
        (Some \<lparr>year = 2025, month = 12, day = 1, hour = 0, minute = 0, second = 0\<rparr>) 12
       = Inr (Some ''2025-09-08'')"
proof -
  have main: "\<exists>due. calculate_due_date env (Some d) w = Inr (Some (strftime_ymd env due))
            \<and> valid_datetime due \<and> toordinal due = toordinal d - 7 * w
            \<and> hour due = hour d \<and> minute due = minute d \<and> second due = second d
            \<and> (strftime_pads_year env \<or> 1000 \<le> year due \<longrightarrow>
                 strftime_ymd env due
                   = pad4 (nat (year due)) @ ''-'' @ pad2 (nat (month due)) @ ''-''
                     @ pad2 (nat (day due)))"
    if a: "valid_datetime d" "0 \<le> w" "1 \<le> toordinal d - 7 * w"
  proof -
    from toordinal_range[OF a(1)] have hi: "toordinal d \<le> MAXORDINAL" by simp
    have td: "timedelta_weeks w = Inr (7 * w)"
      using a(2,3) hi by (simp add: timedelta_weeks_def timedelta_days_def MAXORDINAL_def)
    have "1 \<le> toordinal d + - (7 * w)" "toordinal d + - (7 * w) \<le> MAXORDINAL"
      using a(2,3) hi by simp_all
    from datetime_add_ok[OF a(1) this]
    obtain due where due: "datetime_add d (- (7 * w)) = Inr due" "valid_datetime due"
        "toordinal due = toordinal d - 7 * w"
        "hour due = hour d" "minute due = minute d" "second due = second d"
      by auto
    have "calculate_due_date env (Some d) w = Inr (Some (strftime_ymd env due))"
      by (simp add: calculate_due_date_def bind_err_def td datetime_sub_def due(1))
    moreover have "strftime_pads_year env \<or> 1000 \<le> year due \<longrightarrow>
        strftime_ymd env due
          = pad4 (nat (year due)) @ ''-'' @ pad2 (nat (month due)) @ ''-'' @ pad2 (nat (day due))"
      by (auto simp: strftime_ymd_def strftime_Y_def)
    ultimately show ?thesis using due(2-6) by blast
  qed
  have none: "calculate_due_date env None v = Inr None"
    by (simp add: calculate_due_date_def)
  have ex: "calculate_due_date env
      (Some \<lparr>year = 2025, month = 12, day = 1, hour = 0, minute = 0, second = 0\<rparr>) 12
      = Inr (Some ''2025-09-08'')"
  proof -
    have "datetime_sub \<lparr>year = 2025, month = 12, day = 1, hour = 0, minute = 0, second = 0\<rparr> 84
        = Inr \<lparr>year = 2025, month = 9, day = 8, hour = 0, minute = 0, second = 0\<rparr>"
      by code_simp
    moreover have "pad4 2025 = ''2025''" "pad2 9 = ''09''" "pad2 8 = ''08''"
      by code_simp+
    ultimately show ?thesis
      by (simp add: calculate_due_date_def bind_err_def timedelta_weeks_def timedelta_days_def
          strftime_ymd_def strftime_Y_def)
  qed
  from main none ex show ?thesis by blast
qed

theorem calculate_due_date_weeks_before_witness:
  "valid_datetime \<lparr>year = 2026, month = 6, day = 1, hour = 0, minute = 0, second = 0\<rparr>
   \<and> (0::int) \<le> 40
   \<and> 1 \<le> toordinal \<lparr>year = 2026, month = 6, day = 1, hour = 0, minute = 0, second = 0\<rparr> - 7 * 40
   \<and> (\<exists>due. calculate_due_date cpython311_glibc
              (Some \<lparr>year = 2026, month = 6, day = 1, hour = 0, minute = 0, second = 0\<rparr>) 40
              = Inr (Some (strftime_ymd cpython311_glibc due))
            \<and> toordinal due
              = toordinal \<lparr>year = 2026, month = 6, day = 1, hour = 0, minute = 0, second = 0\<rparr> - 7 * 40)
   \<and> calculate_due_date cpython311_glibc None 142857143 = Inr None"
proof -
  have h1: "valid_datetime \<lparr>year = 2026, month = 6, day = 1, hour = 0, minute = 0, second = 0\<rparr>"
    by code_simp
  have h2: "(0::int) \<le> 40" by simp
  have h3: "1 \<le> toordinal \<lparr>year = 2026, month = 6, day = 1, hour = 0, minute = 0, second = 0\<rparr> - 7 * 40"
    by code_simp
  show ?thesis
    using h1 h2 h3
      calculate_due_date_weeks_before[of
        "\<lparr>year = 2026, month = 6, day = 1, hour = 0, minute = 0, second = 0\<rparr>" 40
        cpython311_glibc 142857143]
    by blast
qed

text \<open>
  The claim as it is stated fails twice. One week before 0001-01-05 there is no
  \<open>datetime\<close>: the subtraction raises OverflowError. And twelve weeks before 1000-01-01
  the year has three digits, which \<open>strftime('%Y')\<close> does not pad where the C library
  does not: the result is \<open>999-10-09\<close>, not of the form YYYY-MM-DD.
\<close>

theorem calculate_due_date_before_year_one:
  "valid_datetime \<lparr>year = 1, month = 1, day = 5, hour = 0, minute = 0, second = 0\<rparr>
   \<and> calculate_due_date cpython311_glibc
        (Some \<lparr>year = 1, month = 1, day = 5, hour = 0, minute = 0, second = 0\<rparr>) 1
       = Inl OverflowError
   \<and> valid_datetime \<lparr>year = 1000, month = 1, day = 1, hour = 0, minute = 0, second = 0\<rparr>
   \<and> calculate_due_date cpython311_glibc
        (Some \<lparr>year = 1000, month = 1, day = 1, hour = 0, minute = 0, second = 0\<rparr>) 12
       = Inr (Some ''999-10-09'')"
  by code_simp

section \<open>Excel serials\<close>

text \<open>
  A string of decimal digits, with nothing around them, that \<open>int()\<close> accepts and that
  denotes \<open>n \<le> 2958465\<close>, is decoded as the Excel serial \<open>n\<close>: the day \<open>n\<close> days after
  1899-12-30, at midnight.
\<close>

lemma excel_serial_decoded:
  assumes "s \<noteq> []" and "list_all ascii_digit s"
    and "int_max_str_digits env = 0 \<or> length s \<le> int_max_str_digits env"
    and "digits_val 0 s \<le> 2958465"
  shows "\<exists>d. parse_launch_date_gmb env s = Inr (Some d)
           \<and> parse_launch_date_dup env s = Inr (Some d)
           \<and> valid_datetime d
           \<and> toordinal d
               = toordinal \<lparr>year = 1899, month = 12, day = 30, hour = 0, minute = 0, second = 0\<rparr>
                 + int (digits_val 0 s)
           \<and> hour d = 0 \<and> minute d = 0 \<and> second d = 0"
proof -
  let ?base = "\<lparr>year = 1899, month = 12, day = 30, hour = 0, minute = 0, second = 0\<rparr>"
  let ?n = "int (digits_val 0 s)"
  have "1 \<le> toordinal ?base + ?n" "toordinal ?base + ?n \<le> MAXORDINAL"
    using assms(4) by (simp_all add: base_date_facts MAXORDINAL_def)
  from datetime_add_ok[OF base_date_facts(2) this]
  obtain d where d: "datetime_add ?base ?n = Inr d" "valid_datetime d"
      "toordinal d = toordinal ?base + ?n" "hour d = 0" "minute d = 0" "second d = 0"
    by auto
  have "parse_with_formats env s fmts = Inr (Some d)" for fmts
    using parse_with_formats_serial[OF assms(1-3), of fmts] assms(4) d(1) by simp
  then have "parse_launch_date_gmb env s = Inr (Some d)" "parse_launch_date_dup env s = Inr (Some d)"
    by (simp_all add: parse_launch_date_shape)
  with d show ?thesis by blast
qed

text \<open>
  C2. The serial is recognised by \<open>isdigit()\<close> on the string as it came, while the test
  for a blank string and every \<open>strptime\<close> work on the trimmed string. So \<open>46062\<close> is
  decoded as 1899-12-30 plus 46062 days, which is 2026-02-09, and a date between blanks
  is parsed, but the serial between blanks, whose trimmed form is \<open>46062\<close>, is not: the
  result is \<open>None\<close>, where the claim has the same date.
\<close>

theorem parse_launch_date_serial_between_blanks:
  "strip '' 46062 '' = ''46062''
   \<and> parse_launch_date_gmb cpython311_glibc ''46062''
       = Inr (Some \<lparr>year = 2026, month = 2, day = 9, hour = 0, minute = 0, second = 0\<rparr>)
   \<and> toordinal \<lparr>year = 2026, month = 2, day = 9, hour = 0, minute = 0, second = 0\<rparr>
       = toordinal \<lparr>year = 1899, month = 12, day = 30, hour = 0, minute = 0, second = 0\<rparr> + 46062
   \<and> parse_launch_date_gmb cpython311_glibc '' 46062 '' = Inr None
   \<and> parse_launch_date_dup cpython311_glibc '' 46062 '' = Inr None
   \<and> parse_launch_date_gmb cpython311_glibc '' 2025-01-15 ''
       = Inr (Some \<lparr>year = 2025, month = 1, day = 15, hour = 0, minute = 0, second = 0\<rparr>)"
proof -
  have st: "strip '' 46062 '' = ''46062''" by (simp add: strip_def py_isspace_def)
  have d: "list_all ascii_digit ''46062''" by (simp add: ascii_digit_def)
  have v: "digits_val 0 ''46062'' = 46062" by (simp add: digit_val_def)
  have add: "datetime_add \<lparr>year = 1899, month = 12, day = 30, hour = 0, minute = 0, second = 0\<rparr> 46062
      = Inr \<lparr>year = 2026, month = 2, day = 9, hour = 0, minute = 0, second = 0\<rparr>"
    by code_simp
  have plain: "parse_launch_date_gmb cpython311_glibc ''46062''
      = Inr (Some \<lparr>year = 2026, month = 2, day = 9, hour = 0, minute = 0, second = 0\<rparr>)"
    using parse_with_formats_serial[OF _ d, where env = cpython311_glibc] v add
    by (simp add: parse_launch_date_shape cpython311_glibc_def)
  have ord: "toordinal \<lparr>year = 2026, month = 2, day = 9, hour = 0, minute = 0, second = 0\<rparr>
      = toordinal \<lparr>year = 1899, month = 12, day = 30, hour = 0, minute = 0, second = 0\<rparr> + 46062"
    by code_simp
  have nd: "\<not> py_isdigit '' 46062 ''"
    by (simp add: py_isdigit_def py_isdigit_char_def ascii_digit_def)
  have f: "strptime ''46062'' ''%Y-%m-%d'' = Inl ValueError"
      "strptime ''46062'' ''%m/%d/%Y'' = Inl ValueError"
      "strptime ''46062'' ''%d/%m/%Y'' = Inl ValueError"
      "strptime ''46062'' ''%Y-%m-%d %H:%M:%S'' = Inl ValueError"
    by code_simp+
  have blanks: "parse_launch_date_gmb cpython311_glibc '' 46062 '' = Inr None"
      "parse_launch_date_dup cpython311_glibc '' 46062 '' = Inr None"
    using parse_with_formats_not_digit[OF nd, where env = cpython311_glibc] f
    by (simp_all add: parse_launch_date_shape st)
  have st2: "strip '' 2025-01-15 '' = ''2025-01-15''" by (simp add: strip_def py_isspace_def)
  have nd2: "\<not> py_isdigit '' 2025-01-15 ''"
    by (simp add: py_isdigit_def py_isdigit_char_def ascii_digit_def)
  have g: "strptime ''2025-01-15'' ''%Y-%m-%d''
      = Inr \<lparr>year = 2025, month = 1, day = 15, hour = 0, minute = 0, second = 0\<rparr>"
    by code_simp
  have date: "parse_launch_date_gmb cpython311_glibc '' 2025-01-15 ''
      = Inr (Some \<lparr>year = 2025, month = 1, day = 15, hour = 0, minute = 0, second = 0\<rparr>)"
    using parse_with_formats_not_digit[OF nd2, where env = cpython311_glibc] g
    by (simp add: parse_launch_date_shape st2)
  from st plain ord blanks date show ?thesis by simp
qed

text \<open>
  C8. The digit string \<open>9999999\<close> is past 9999-12-31 as an Excel serial: the addition
  raises OverflowError, which \<open>except ValueError\<close> does not catch, so the exception leaves
  \<open>parse_launch_date\<close> in every copy.
\<close>

theorem parse_launch_date_overflow_escapes:
  "parse_launch_date_gmb cpython311_glibc ''9999999'' = Inl OverflowError
   \<and> parse_launch_date_dup cpython311_glibc ''9999999'' = Inl OverflowError
   \<and> parse_launch_date_add cpython311_glibc ''9999999'' = Inl OverflowError"
proof -
  have d: "list_all ascii_digit ''9999999''" by (simp add: ascii_digit_def)
  have v: "digits_val 0 ''9999999'' = 9999999" by (simp add: digit_val_def)
  have "parse_with_formats cpython311_glibc ''9999999'' fmts = Inl OverflowError" for fmts
    using parse_with_formats_serial[OF _ d, where env = cpython311_glibc and fmts = fmts] v
    by (simp add: cpython311_glibc_def)
  then show ?thesis by (simp add: parse_launch_date_shape)
qed


section \<open>Group classification\<close>

lemma startswith_iff: "startswith s p \<longleftrightarrow> (\<exists>after. s = p @ after)"
  by (induction s p rule: startswith.induct) auto

lemma contains_iff: "contains sub s \<longleftrightarrow> is_substring sub s"
proof (induction s)
  case Nil
  then show ?case by (auto simp: is_substring_def)
next
  case (Cons c cs)
  have "is_substring sub (c # cs) \<longleftrightarrow> (\<exists>after. c # cs = sub @ after) \<or> is_substring sub cs"
  proof
    assume "is_substring sub (c # cs)"
    then obtain before after where e: "c # cs = before @ sub @ after"
      unfolding is_substring_def by blast
    show "(\<exists>after. c # cs = sub @ after) \<or> is_substring sub cs"
    proof (cases before)
      case Nil
      with e show ?thesis by auto
    next
      case (Cons b bs)
      with e have "cs = bs @ sub @ after" by simp
      then show ?thesis unfolding is_substring_def by blast
    qed
  next
    assume "(\<exists>after. c # cs = sub @ after) \<or> is_substring sub cs"
    then show "is_substring sub (c # cs)"
    proof
      assume "\<exists>after. c # cs = sub @ after"
      then obtain after where "c # cs = [] @ sub @ after" by auto
      then show ?thesis unfolding is_substring_def by blast
    next
      assume "is_substring sub cs"
      then obtain before after where "cs = before @ sub @ after"
        unfolding is_substring_def by blast
      then have "c # cs = (c # before) @ sub @ after" by simp
      then show ?thesis unfolding is_substring_def by blast
    qed
  qed
  with Cons.IH show ?case by (simp add: startswith_iff)
qed

text \<open>
  C4. The group of a copied item is the group of the first rule, in the order
  \<open>new colors\<close>, \<open>new styles\<close>, \<open>end of life\<close>, whose text occurs in the lower-cased
  title of the source group, and \<open>SS26 New Colors\<close> when no rule applies; so \<open>Misc\<close> goes
  to \<open>SS26 New Colors\<close> and \<open>End of Life batch\<close> to \<open>End of Life Products\<close>.
\<close>

theorem target_group_name_first_rule:
  "target_group_name s = classifyGroup_spec s
   \<and> target_group_name s
       = (if is_substring ''new colors'' (lower s) then ''SS26 New Colors''
          else if is_substring ''new styles'' (lower s) then ''SS26 New Styles''
          else if is_substring ''end of life'' (lower s) then ''End of Life Products''
          else ''SS26 New Colors'')
   \<and> target_group_name ''Misc'' = ''SS26 New Colors''
   \<and> target_group_name ''End of Life batch'' = ''End of Life Products''"
proof -
  have "target_group_name s = classifyGroup_spec s"
    by (simp add: target_group_name_def classifyGroup_spec_def classification_rules_def
        default_group_def contains_iff)
  moreover have "target_group_name s
       = (if is_substring ''new colors'' (lower s) then ''SS26 New Colors''
          else if is_substring ''new styles'' (lower s) then ''SS26 New Styles''
          else if is_substring ''end of life'' (lower s) then ''End of Life Products''
          else ''SS26 New Colors'')"
    by (simp add: target_group_name_def contains_iff)
  moreover have "target_group_name ''Misc'' = ''SS26 New Colors''"
    by code_simp
  moreover have "target_group_name ''End of Life batch'' = ''End of Life Products''"
    by code_simp
  ultimately show ?thesis by blast
qed


section \<open>The copies of \<open>parse_launch_date\<close>\<close>




section \<open>The platform column\<close>

text \<open>
  C7. The source board has no column titled like \<open>platform\<close>, the destination board has
  one, and the item has one column with a text. The test on line 357 subscripts
  \<open>master_platform_col\<close>, which is \<open>None\<close>: a TypeError, caught on line 433, and no call
  to create the item is made. With the platform column on the source board and none on
  the destination board, the same item is copied and the platform value is left out.
\<close>

theorem missing_master_platform_column_raises:
  "find_platform_col [\<lparr>column_id = ''text'', column_title = ''Style''\<rparr>] = None
   \<and> find_platform_col [\<lparr>column_id = ''text9'', column_title = ''Style''\<rparr>,
                        \<lparr>column_id = ''plat9'', column_title = ''Target PLATFORM''\<rparr>]
       = Some \<lparr>column_id = ''plat9'', column_title = ''Target PLATFORM''\<rparr>
   \<and> process_item cpython311_glibc accepting_service
        \<lparr>proddev_board_id = ''B'', group_mapping = (\<lambda>g. g), master_platform_col = None,
         proddev_platform_col = Some \<lparr>column_id = ''plat9'', column_title = ''Target PLATFORM''\<rparr>,
         subitems_config = [\<lparr>task_name = ''Fit Approved'', lead_time_weeks = 18, description = None\<rparr>]\<rparr>
        \<lparr>it_name = ''Shoe'', it_group_title = ''New Styles'',
         it_column_values = [\<lparr>cv_id = ''text'', cv_text = ''Runner''\<rparr>]\<rparr>
        \<lparr>calls = [], items_created = 0, subitems_created = 0\<rparr>
       = (\<lparr>calls = [], items_created = 0, subitems_created = 0\<rparr>, Some TypeError)
   \<and> process_item cpython311_glibc accepting_service
        \<lparr>proddev_board_id = ''B'', group_mapping = (\<lambda>g. g),
         master_platform_col = Some \<lparr>column_id = ''plat'', column_title = ''Platform''\<rparr>,
         proddev_platform_col = None,
         subitems_config = [\<lparr>task_name = ''Fit Approved'', lead_time_weeks = 18, description = None\<rparr>]\<rparr>
        \<lparr>it_name = ''Shoe'', it_group_title = ''New Styles'',
         it_column_values = [\<lparr>cv_id = ''text'', cv_text = ''Runner''\<rparr>,
                             \<lparr>cv_id = ''plat'', cv_text = ''Web''\<rparr>]\<rparr>
        \<lparr>calls = [], items_created = 0, subitems_created = 0\<rparr>
       = (\<lparr>calls = [CreateItem ''B'' ''SS26 New Styles'' ''Shoe'' [(''text'', ''Runner'')],
                   CreateSubitem ''0'' ''Fit Approved'' [(''status'', ''Working on it'')]],
          items_created = 1, subitems_created = 1\<rparr>, None)"
  by code_simp


section \<open>One subitem per template\<close>

lemma calculate_due_date_nonempty:
  assumes "calculate_due_date env launch_date w = Inr (Some dd)"
  shows "dd \<noteq> []"
proof -
  from assms obtain due where "dd = strftime_ymd env due"
    by (auto simp: calculate_due_date_def bind_err_def split: option.splits sum.splits)
  then show ?thesis by (simp add: strftime_ymd_def)
qed

lemma scheduled_task_undated:
  "scheduled_task env parent None t
     = CreateSubitem parent (task_name t) [(''status'', ''Working on it'')]"
  by (simp add: scheduled_task_def calculate_due_date_def)

lemma create_undated_subitems_all:
  assumes "\<And>h c. \<exists>x. svc h c = Inr x"
  shows "create_undated_subitems svc parent ts st
           = (st\<lparr>calls := calls st @ map (scheduled_task env parent None) ts,
                 subitems_created := subitems_created st + length ts\<rparr>, None)"
proof (induction ts arbitrary: st)
  case Nil
  then show ?case by simp
next
  case (Cons t ts)
  from assms obtain x where
    x: "svc (calls st) (CreateSubitem parent (task_name t) [(''status'', ''Working on it'')]) = Inr x"
    by blast
  show ?case
    by (simp add: api_def x Cons.IH scheduled_task_undated)
qed

lemma create_dated_subitems_all:
  assumes "\<And>h c. \<exists>x. svc h c = Inr x"
    and "\<And>t. t \<in> set ts \<Longrightarrow>
           \<exists>dd. calculate_due_date env (Some ld) (lead_time_weeks t) = Inr (Some dd)"
  shows "create_dated_subitems env svc parent ld ts st
           = (st\<lparr>calls := calls st @ map (scheduled_task env parent (Some ld)) ts,
                 subitems_created := subitems_created st + length ts\<rparr>, None)"
  using assms(2)
proof (induction ts arbitrary: st)
  case Nil
  then show ?case by simp
next
  case (Cons t ts)
  from Cons.prems[of t] obtain dd where
    dd: "calculate_due_date env (Some ld) (lead_time_weeks t) = Inr (Some dd)" by auto
  then have ne: "dd \<noteq> []" by (rule calculate_due_date_nonempty)
  from assms(1) obtain x where
    x: "svc (calls st) (CreateSubitem parent (task_name t)
          [(''status'', ''Working on it''), (''date'', dd)]) = Inr x"
    by blast
  have ih: "create_dated_subitems env svc parent ld ts st'
      = (st'\<lparr>calls := calls st' @ map (scheduled_task env parent (Some ld)) ts,
             subitems_created := subitems_created st' + length ts\<rparr>, None)" for st'
    using Cons.prems by (intro Cons.IH) simp
  show ?case
    by (simp add: dd ne api_def x ih scheduled_task_def)
qed


text \<open>
  C3 (as amended). Let the board service accept every call and, when there is a launch
  date, let every template's due date exist (\<open>calculate_due_date\<close> does not raise). Then
  the subitems requested for an item are exactly the tasks of the specification: one per
  template, in the order of the templates, each under the template's name; without a
  launch date each carries the status only, with one each carries the due date of its
  template. The requests are a function of the launch date and the templates: the state
  of the run and the service do not enter.
\<close>

theorem schedule_subitems_one_per_template:
  "(\<forall>h c. \<exists>x. svc h c = Inr x)
   \<and> (\<forall>ld. launch_date = Some ld \<longrightarrow>
         (\<forall>t \<in> set ts. \<exists>dd. calculate_due_date env (Some ld) (lead_time_weeks t) = Inr (Some dd)))
   \<longrightarrow>
     schedule_subitems env svc parent launch_date ts st
       = (st\<lparr>calls := calls st @ expandSchedule_spec env parent launch_date ts,
             subitems_created := subitems_created st + length ts\<rparr>, None)
     \<and> length (expandSchedule_spec env parent launch_date ts) = length ts
     \<and> (\<forall>i < length ts.
           \<exists>cv. expandSchedule_spec env parent launch_date ts ! i
                  = CreateSubitem parent (task_name (ts ! i)) cv
              \<and> (launch_date = None \<longrightarrow> cv = [(''status'', ''Working on it'')])
              \<and> (\<forall>ld. launch_date = Some ld \<longrightarrow>
                    (\<exists>dd. calculate_due_date env (Some ld) (lead_time_weeks (ts ! i)) = Inr (Some dd)
                       \<and> cv = [(''status'', ''Working on it''), (''date'', dd)])))"
proof (intro impI, elim conjE)
  assume acc: "\<forall>h c. \<exists>x. svc h c = Inr x"
    and rep: "\<forall>ld. launch_date = Some ld \<longrightarrow>
         (\<forall>t \<in> set ts. \<exists>dd. calculate_due_date env (Some ld) (lead_time_weeks t) = Inr (Some dd))"
  from acc have acc': "\<And>h c. \<exists>x. svc h c = Inr x" by blast
  have run: "schedule_subitems env svc parent launch_date ts st
       = (st\<lparr>calls := calls st @ expandSchedule_spec env parent launch_date ts,
             subitems_created := subitems_created st + length ts\<rparr>, None)"
  proof (cases launch_date)
    case None
    then show ?thesis
      using create_undated_subitems_all[OF acc', where parent = parent and ts = ts and st = st and env = env]
      by (simp add: schedule_subitems_def expandSchedule_spec_def)
  next
    case (Some ld)
    with rep have "\<And>t. t \<in> set ts \<Longrightarrow>
        \<exists>dd. calculate_due_date env (Some ld) (lead_time_weeks t) = Inr (Some dd)"
      by blast
    from create_dated_subitems_all[OF acc' this, where parent = parent and st = st] Some show ?thesis
      by (simp add: schedule_subitems_def expandSchedule_spec_def)
  qed
  have len: "length (expandSchedule_spec env parent launch_date ts) = length ts"
    by (simp add: expandSchedule_spec_def)
  have each: "\<exists>cv. expandSchedule_spec env parent launch_date ts ! i
                  = CreateSubitem parent (task_name (ts ! i)) cv
              \<and> (launch_date = None \<longrightarrow> cv = [(''status'', ''Working on it'')])
              \<and> (\<forall>ld. launch_date = Some ld \<longrightarrow>
                    (\<exists>dd. calculate_due_date env (Some ld) (lead_time_weeks (ts ! i)) = Inr (Some dd)
                       \<and> cv = [(''status'', ''Working on it''), (''date'', dd)]))"
    if i: "i < length ts" for i
  proof (cases launch_date)
    case None
    with i show ?thesis
      by (simp add: expandSchedule_spec_def scheduled_task_undated)
  next
    case (Some ld)
    from i have "ts ! i \<in> set ts" by simp
    with rep Some obtain dd where
      "calculate_due_date env (Some ld) (lead_time_weeks (ts ! i)) = Inr (Some dd)" by blast
    with i Some show ?thesis
      by (simp add: expandSchedule_spec_def scheduled_task_def)
  qed
  from run len each
  show "schedule_subitems env svc parent launch_date ts st
       = (st\<lparr>calls := calls st @ expandSchedule_spec env parent launch_date ts,
             subitems_created := subitems_created st + length ts\<rparr>, None)
     \<and> length (expandSchedule_spec env parent launch_date ts) = length ts
     \<and> (\<forall>i < length ts.
           \<exists>cv. expandSchedule_spec env parent launch_date ts ! i
                  = CreateSubitem parent (task_name (ts ! i)) cv
              \<and> (launch_date = None \<longrightarrow> cv = [(''status'', ''Working on it'')])
              \<and> (\<forall>ld. launch_date = Some ld \<longrightarrow>
                    (\<exists>dd. calculate_due_date env (Some ld) (lead_time_weeks (ts ! i)) = Inr (Some dd)
                       \<and> cv = [(''status'', ''Working on it''), (''date'', dd)])))"
    by blast
qed

theorem schedule_subitems_one_per_template_witness:
  "(\<forall>h c. \<exists>x. accepting_service h c = Inr x)
   \<and> calculate_due_date cpython311_glibc
         (Some \<lparr>year = 2026, month = 6, day = 1, hour = 0, minute = 0, second = 0\<rparr>) 40
       = Inr (Some ''2025-08-25'')
   \<and> calculate_due_date cpython311_glibc
         (Some \<lparr>year = 2026, month = 6, day = 1, hour = 0, minute = 0, second = 0\<rparr>) 18
       = Inr (Some ''2026-01-26'')
   \<and> schedule_subitems cpython311_glibc accepting_service ''17''
        (Some \<lparr>year = 2026, month = 6, day = 1, hour = 0, minute = 0, second = 0\<rparr>)
        [\<lparr>task_name = ''Fabric Approved'', lead_time_weeks = 40, description = None\<rparr>,
         \<lparr>task_name = ''Fit Approved'', lead_time_weeks = 18, description = None\<rparr>]
        \<lparr>calls = [], items_created = 1, subitems_created = 0\<rparr>
       = (\<lparr>calls = [CreateSubitem ''17'' ''Fabric Approved''
                      [(''status'', ''Working on it''), (''date'', ''2025-08-25'')],
                    CreateSubitem ''17'' ''Fit Approved''
                      [(''status'', ''Working on it''), (''date'', ''2026-01-26'')]],
           items_created = 1, subitems_created = 2\<rparr>, None)"
proof -
  let ?ld = "\<lparr>year = 2026, month = 6, day = 1, hour = 0, minute = 0, second = 0\<rparr>"
  let ?ts = "[\<lparr>task_name = ''Fabric Approved'', lead_time_weeks = 40, description = None\<rparr>,
              \<lparr>task_name = ''Fit Approved'', lead_time_weeks = 18, description = None\<rparr>]"
  have h1: "\<forall>h c. \<exists>x. accepting_service h c = Inr x"
    by (simp add: accepting_service_def)
  have d: "calculate_due_date cpython311_glibc (Some ?ld) 40 = Inr (Some ''2025-08-25'')"
      "calculate_due_date cpython311_glibc (Some ?ld) 18 = Inr (Some ''2026-01-26'')"
    by code_simp+
  then have h2: "\<forall>t \<in> set ?ts. \<exists>dd. calculate_due_date cpython311_glibc (Some ?ld)
      (lead_time_weeks t) = Inr (Some dd)"
    by simp
  then have h2': "\<forall>ld. Some ?ld = Some ld \<longrightarrow> (\<forall>t \<in> set ?ts.
      \<exists>dd. calculate_due_date cpython311_glibc (Some ld) (lead_time_weeks t) = Inr (Some dd))"
    by simp
  from schedule_subitems_one_per_template[where svc = accepting_service
      and launch_date = "Some ?ld" and ts = ?ts and env = cpython311_glibc and parent = "''17''"
      and st = "\<lparr>calls = [], items_created = 1, subitems_created = 0\<rparr>"] h1 h2'
  have "schedule_subitems cpython311_glibc accepting_service ''17'' (Some ?ld) ?ts
          \<lparr>calls = [], items_created = 1, subitems_created = 0\<rparr>
       = (\<lparr>calls = [], items_created = 1, subitems_created = 0\<rparr>
            \<lparr>calls := calls \<lparr>calls = [], items_created = 1, subitems_created = 0\<rparr>
                @ expandSchedule_spec cpython311_glibc ''17'' (Some ?ld) ?ts,
             subitems_created := subitems_created \<lparr>calls = [], items_created = 1, subitems_created = 0\<rparr>
                + length ?ts\<rparr>, None)"
    by blast
  then have "schedule_subitems cpython311_glibc accepting_service ''17'' (Some ?ld) ?ts
          \<lparr>calls = [], items_created = 1, subitems_created = 0\<rparr>
       = (\<lparr>calls = [CreateSubitem ''17'' ''Fabric Approved''
                      [(''status'', ''Working on it''), (''date'', ''2025-08-25'')],
                    CreateSubitem ''17'' ''Fit Approved''
                      [(''status'', ''Working on it''), (''date'', ''2026-01-26'')]],
           items_created = 1, subitems_created = 2\<rparr>, None)"
    by (simp add: expandSchedule_spec_def scheduled_task_def d)
  with h1 d show ?thesis by blast
qed

text \<open>
  The claim as it is stated fails where a due date does not exist: one week before
  0001-01-05 \<open>calculate_due_date\<close> raises, the item's processing ends and none of its
  subitems is requested. It also fails where the service refuses a request: the first
  refusal ends the loop, here after one request for two templates.
\<close>

theorem schedule_subitems_counterexample:
  "schedule_subitems cpython311_glibc accepting_service ''17''
     (Some \<lparr>year = 1, month = 1, day = 5, hour = 0, minute = 0, second = 0\<rparr>)
     [\<lparr>task_name = ''Fit Approved'', lead_time_weeks = 1, description = None\<rparr>]
     \<lparr>calls = [], items_created = 1, subitems_created = 0\<rparr>
    = (\<lparr>calls = [], items_created = 1, subitems_created = 0\<rparr>, Some OverflowError)
   \<and> schedule_subitems cpython311_glibc refusing_service ''17'' None
       [\<lparr>task_name = ''Fabric Approved'', lead_time_weeks = 40, description = None\<rparr>,
        \<lparr>task_name = ''Fit Approved'', lead_time_weeks = 18, description = None\<rparr>]
       \<lparr>calls = [], items_created = 1, subitems_created = 0\<rparr>
      = (\<lparr>calls = [CreateSubitem ''17'' ''Fabric Approved'' [(''status'', ''Working on it'')]],
          items_created = 1, subitems_created = 0\<rparr>, Some ApiError)"
  by code_simp


section \<open>The launch date of a copied item\<close>



text \<open>
  C10. The item has a column \<open>date4\<close> with the text \<open>9999999\<close> before a column
  \<open>launch_date\<close> with the text \<open>2026-06-01\<close>. The first text does not parse to a date, the
  second does, so by the claim the subitems are scheduled from 2026-06-01. In the code
  \<open>parse_launch_date\<close> raises OverflowError on the first text (the defect of C8); the
  exception ends the item's processing on line 433, after the item is created and
  before any subitem is: the second column is never looked at.
\<close>

theorem launch_date_search_aborted_by_overflow:
  "date_like \<lparr>cv_id = ''date4'', cv_text = ''9999999''\<rparr>
   \<and> date_like \<lparr>cv_id = ''launch_date'', cv_text = ''2026-06-01''\<rparr>
   \<and> parse_launch_date_dup cpython311_glibc ''2026-06-01''
       = Inr (Some \<lparr>year = 2026, month = 6, day = 1, hour = 0, minute = 0, second = 0\<rparr>)
   \<and> find_launch_date cpython311_glibc
        [\<lparr>cv_id = ''date4'', cv_text = ''9999999''\<rparr>,
         \<lparr>cv_id = ''launch_date'', cv_text = ''2026-06-01''\<rparr>] None
       = Inl OverflowError
   \<and> process_item cpython311_glibc accepting_service
        \<lparr>proddev_board_id = ''B'', group_mapping = (\<lambda>g. g),
         master_platform_col = Some \<lparr>column_id = ''plat'', column_title = ''Platform''\<rparr>,
         proddev_platform_col = Some \<lparr>column_id = ''plat9'', column_title = ''Platform''\<rparr>,
         subitems_config = [\<lparr>task_name = ''Fit Approved'', lead_time_weeks = 18, description = None\<rparr>]\<rparr>
        \<lparr>it_name = ''Shoe'', it_group_title = ''New Styles'',
         it_column_values = [\<lparr>cv_id = ''date4'', cv_text = ''9999999''\<rparr>,
                             \<lparr>cv_id = ''launch_date'', cv_text = ''2026-06-01''\<rparr>]\<rparr>
        \<lparr>calls = [], items_created = 0, subitems_created = 0\<rparr>
       = (\<lparr>calls = [CreateItem ''B'' ''SS26 New Styles'' ''Shoe''
                      [(''date4'', ''9999999''), (''launch_date'', ''2026-06-01'')]],
          items_created = 1, subitems_created = 0\<rparr>, Some OverflowError)"
proof -
  let ?c1 = "\<lparr>cv_id = ''date4'', cv_text = ''9999999''\<rparr>"
  let ?c2 = "\<lparr>cv_id = ''launch_date'', cv_text = ''2026-06-01''\<rparr>"
  have dl: "date_like ?c1" "date_like ?c2" by code_simp+
  have d: "list_all ascii_digit ''9999999''" by (simp add: ascii_digit_def)
  have v: "digits_val 0 ''9999999'' = 9999999" by (simp add: digit_val_def)
  have p1: "parse_launch_date_dup cpython311_glibc ''9999999'' = Inl OverflowError"
    using parse_with_formats_serial[OF _ d, where env = cpython311_glibc] v
    by (simp add: parse_launch_date_shape cpython311_glibc_def)
  have st2: "strip ''2026-06-01'' = ''2026-06-01''" by (simp add: strip_def py_isspace_def)
  have nd2: "\<not> py_isdigit ''2026-06-01''"
    by (simp add: py_isdigit_def py_isdigit_char_def ascii_digit_def)
  have g: "strptime ''2026-06-01'' ''%Y-%m-%d''
      = Inr \<lparr>year = 2026, month = 6, day = 1, hour = 0, minute = 0, second = 0\<rparr>"
    by code_simp
  have p2: "parse_launch_date_dup cpython311_glibc ''2026-06-01''
      = Inr (Some \<lparr>year = 2026, month = 6, day = 1, hour = 0, minute = 0, second = 0\<rparr>)"
    using parse_with_formats_not_digit[OF nd2, where env = cpython311_glibc] g
    by (simp add: parse_launch_date_shape st2)
  have fl: "find_launch_date cpython311_glibc [?c1, ?c2] None = Inl OverflowError"
    using dl(1) by (simp add: date_like_def p1 bind_err_def)
  have ex: "extract_column_values (Some \<lparr>column_id = ''plat'', column_title = ''Platform''\<rparr>)
      [?c1, ?c2] [] None
      = Inr ([(''date4'', ''9999999''), (''launch_date'', ''2026-06-01'')], None)"
    by code_simp
  have tg: "target_group_name ''New Styles'' = ''SS26 New Styles''" by code_simp
  have run: "process_item cpython311_glibc accepting_service
        \<lparr>proddev_board_id = ''B'', group_mapping = (\<lambda>g. g),
         master_platform_col = Some \<lparr>column_id = ''plat'', column_title = ''Platform''\<rparr>,
         proddev_platform_col = Some \<lparr>column_id = ''plat9'', column_title = ''Platform''\<rparr>,
         subitems_config = [\<lparr>task_name = ''Fit Approved'', lead_time_weeks = 18, description = None\<rparr>]\<rparr>
        \<lparr>it_name = ''Shoe'', it_group_title = ''New Styles'', it_column_values = [?c1, ?c2]\<rparr>
        \<lparr>calls = [], items_created = 0, subitems_created = 0\<rparr>
       = (\<lparr>calls = [CreateItem ''B'' ''SS26 New Styles'' ''Shoe''
                      [(''date4'', ''9999999''), (''launch_date'', ''2026-06-01'')]],
          items_created = 1, subitems_created = 0\<rparr>, Some OverflowError)"
    by (simp add: process_item_def tg ex fl add_platform_def api_def accepting_service_def
        del: find_launch_date.simps extract_column_values.simps)
  from dl p2 fl run show ?thesis by blast
qed


section \<open>Records without a launch date\<close>











end
